theory Spec2Isabelle
  imports Main "HOL-Library.Word"
begin

section \<open>The debug syscalls of kernel/lib/syscalls/syscalls_debug.cpp\<close>

text \<open>
  The syscalls are embedded as functions from the kernel state (and the syscall's
  arguments) to a status and the kernel state after the call. Every early
  \<^verbatim>\<open>return\<close> of the C++ is a branch of the model that
  returns the state it has reached. The collaborators the file calls but does not
  define (handle table, address space, VM object, user copy, trace log, thread
  state reader) are modelled from the specification; each such definition says so.
\<close>

subsection \<open>Status codes and machine integers\<close>

type_synonym u8 = "8 word"
type_synonym u32 = "32 word"
type_synonym u64 = "64 word"

text \<open>
  \<^verbatim>\<open>mx_status_t\<close>. The numeric values live in a header that
  is not among the repository's source files; the code only compares statuses with
  each other, and tests \<^verbatim>\<open>status < 0\<close>, which holds for
  every status but \<^verbatim>\<open>NO_ERROR\<close>.
\<close>

datatype mx_status =
    NO_ERROR
  | ERR_INVALID_ARGS
  | ERR_BAD_HANDLE
  | ERR_WRONG_TYPE
  | ERR_ACCESS_DENIED
  | ERR_BAD_STATE
  | ERR_NO_MEMORY
  | ERR_UNAVAILABLE
  | ERR_BUFFER_TOO_SMALL
  | ERR_NOT_SUPPORTED

type_synonym mx_handle_t = u32
type_synonym mx_size_t = u64
type_synonym uintptr_t = u64

text \<open>\<^verbatim>\<open>user_ptr<T>\<close>: an address in the calling process; \<^verbatim>\<open>!ptr\<close> is \<open>ptr = 0\<close>.\<close>

type_synonym user_ptr = u64

definition kMaxDebugWriteSize :: u32 where
  "kMaxDebugWriteSize = 256"

definition kMaxDebugReadBlock :: mx_size_t where
  "kMaxDebugReadBlock = 64 * 1024 * 1024"

definition kMaxDebugWriteBlock :: mx_size_t where
  "kMaxDebugWriteBlock = 64 * 1024 * 1024"

subsection \<open>Handles, rights and dispatchers\<close>

text \<open>
  The rights bitmask \<^verbatim>\<open>mx_rights_t\<close> as the set of its
  bits: the bit values are defined outside the repository's source files, so
  \<^verbatim>\<open>MX_RIGHT_READ | MX_RIGHT_WRITE\<close> is the set
  \<open>{MX_RIGHT_READ, MX_RIGHT_WRITE}\<close> and "all requested bits are
  present" is set inclusion.
\<close>

datatype mx_right =
    MX_RIGHT_DUPLICATE
  | MX_RIGHT_TRANSFER
  | MX_RIGHT_READ
  | MX_RIGHT_WRITE
  | MX_RIGHT_EXECUTE

type_synonym mx_rights_t = "mx_right set"

type_synonym koid = nat

text \<open>The kernel object a handle refers to, by kind and object id.\<close>

datatype dispatcher =
    ProcessDispatcher koid
  | ThreadDispatcher koid
  | ResourceDispatcher koid
  | OtherDispatcher koid

record handle =
  dispatcher_of :: dispatcher
  rights :: mx_rights_t

subsection \<open>Address spaces, regions and VM objects\<close>

type_synonym vmo_id = nat

text \<open>
  \<^verbatim>\<open>VmRegion\<close>: \<^verbatim>\<open>base()\<close>,
  \<^verbatim>\<open>object_offset()\<close> and \<^verbatim>\<open>vmo()\<close>
  are the accessors the syscalls use; \<open>vmo = None\<close> is the null
  reference. The region's length is what \<^verbatim>\<open>FindRegion\<close>
  needs to decide containment.
\<close>

record vm_region =
  base :: uintptr_t
  region_size :: u64
  object_offset :: u64
  vmo :: "vmo_id option"

text \<open>
  \<^verbatim>\<open>ProcessDispatcher\<close>: its handle table, its address
  space (\<open>None\<close> once the process is torn down) and the value under
  which it files a handle (\<^verbatim>\<open>MapHandleToValue\<close>, whose
  computation is outside the repository's source files and is carried by the
  process as a function).
\<close>

record process =
  handles :: "mx_handle_t \<rightharpoonup> handle"
  aspace :: "vm_region list option"
  MapHandleToValue :: "handle \<Rightarrow> mx_handle_t"

subsection \<open>User memory of the calling process\<close>

text \<open>
  Byte-addressed; an address is unmapped (\<open>None\<close>), mapped read-only or mapped
  read-write. Addresses are indexed as naturals so that a range running past the
  top of the 64-bit address space is simply unmapped.
\<close>

datatype uperm = UserRO | UserRW

type_synonym user_mem = "nat \<rightharpoonup> (uperm \<times> u8)"

text \<open>
  Modelled from the spec: the user-boundary copy primitives
  (\<^verbatim>\<open>copy_from_user\<close>,
  \<^verbatim>\<open>copy_to_user\<close>,
  \<^verbatim>\<open>copy_array_*\<close>,
  \<^verbatim>\<open>magenta_copy_from_user\<close>) are not among the
  repository's source files. They "fail (rather than fault) on bad addresses": a
  copy from the user needs every byte of the range mapped, a copy to the user
  needs every byte mapped read-write; a failing copy transfers nothing.
\<close>

definition user_readable :: "user_mem \<Rightarrow> user_ptr \<Rightarrow> nat \<Rightarrow> bool" where
  "user_readable m p n = list_all (\<lambda>i. m (unat p + i) \<noteq> None) [0..<n]"

definition user_writable :: "user_mem \<Rightarrow> user_ptr \<Rightarrow> nat \<Rightarrow> bool" where
  "user_writable m p n =
     list_all (\<lambda>i. map_option fst (m (unat p + i)) = Some UserRW) [0..<n]"

definition copy_from_user :: "user_mem \<Rightarrow> user_ptr \<Rightarrow> nat \<Rightarrow> u8 list option" where
  "copy_from_user m p n =
     (if user_readable m p n
      then Some (map (\<lambda>i. snd (the (m (unat p + i)))) [0..<n])
      else None)"

definition copy_to_user :: "user_mem \<Rightarrow> user_ptr \<Rightarrow> u8 list \<Rightarrow> user_mem option" where
  "copy_to_user m p bs =
     (if user_writable m p (length bs)
      then Some (\<lambda>a. if unat p \<le> a \<and> a < unat p + length bs
                      then Some (UserRW, bs ! (a - unat p)) else m a)
      else None)"

text \<open>
  Scalars cross the boundary in little-endian byte order (both targets of the
  kernel are little-endian): \<open>le_bytes k v\<close> are the \<open>k\<close>
  low bytes of \<open>v\<close>, least significant first, and
  \<open>le_val\<close> reads such a sequence back.
\<close>

fun le_bytes :: "nat \<Rightarrow> nat \<Rightarrow> u8 list" where
  "le_bytes 0 v = []"
| "le_bytes (Suc k) v = of_nat (v mod 256) # le_bytes k (v div 256)"

fun le_val :: "u8 list \<Rightarrow> nat" where
  "le_val [] = 0"
| "le_val (b # bs) = unat b + 256 * le_val bs"

subsection \<open>Threads and the trace log\<close>

text \<open>
  A thread "exposes a register-state blob, addressed by an opaque state kind tag":
  \<open>regs\<close> gives the blob of each kind the thread supports.
\<close>

record thread =
  regs :: "u32 \<rightharpoonup> u8 list"

text \<open>
  \<^verbatim>\<open>TAG_PROBE_24(event_id)\<close>: the macro is defined outside
  the repository's source files; the tag of a probe record is kept symbolic, keyed
  by the event id.
\<close>

datatype ktrace_tag = TAG_PROBE_24 u32

text \<open>
  The trace log: "a single process-wide append-mostly record stream" of probe
  records, "fixed-width slots of two 32-bit words keyed by an event id". It can
  be disabled, and it is full when it holds \<open>capacity\<close> records.
\<close>

record ktrace_record =
  tag :: ktrace_tag
  args :: "u32 list"

record ktrace_state =
  enabled :: bool
  capacity :: nat
  records :: "ktrace_record list"

subsection \<open>The kernel state\<close>

text \<open>
  \<open>current\<close> is
  \<^verbatim>\<open>ProcessDispatcher::GetCurrent()\<close>;
  \<open>procs\<close>, \<open>threads\<close> and \<open>vmos\<close> are the
  live kernel objects by id (a VM object is its bytes); \<open>umem\<close> is the
  user memory of the calling process; \<open>console\<close> is what
  \<^verbatim>\<open>platform_dputc\<close> has emitted so far;
  \<open>heap_free\<close> is the number of bytes the kernel heap can still hand
  out.

  \<open>umem\<close> is the caller's memory as the copy primitives see it, by
  address. In the program that memory is itself made of regions of the caller's
  address space, backed by VM objects. The state keeps the two views apart: a
  write to a VM object does not show in \<open>umem\<close>, nor a copy to the
  user in \<open>vmos\<close>. This is what the program does exactly when the VM
  object a call transfers is not mapped into the calling process
  (\<open>caller_maps_vmo\<close> below); a statement that relates what is
  written to an object with what is later found in the caller's memory has to
  assume that.
\<close>

record kstate =
  current :: koid
  procs :: "koid \<Rightarrow> process"
  threads :: "koid \<Rightarrow> thread"
  vmos :: "vmo_id \<Rightarrow> u8 list"
  umem :: user_mem
  console :: "u8 list"
  ktrace :: ktrace_state
  heap_free :: nat

definition GetCurrent :: "kstate \<Rightarrow> process" where
  "GetCurrent s = procs s (current s)"

text \<open>
  Whether a region of the calling process is backed by the VM object \<open>v\<close>:
  then addresses of the caller's own memory name bytes of \<open>v\<close>.
\<close>

definition caller_maps_vmo :: "kstate \<Rightarrow> vmo_id \<Rightarrow> bool" where
  "caller_maps_vmo s v =
     (case aspace (GetCurrent s) of
        None \<Rightarrow> False
      | Some regions \<Rightarrow> list_ex (\<lambda>r. vmo r = Some v) regions)"

text \<open>
  Modelled from the spec:
  \<^verbatim>\<open>ProcessDispatcher::GetDispatcher\<close> is not among the
  repository's source files. It is the handle table's "lookup-with-rights-check":
  the handle value must be in the caller's table, refer to an object of the
  requested kind, and carry every requested right; a failure is a handle or rights
  error.
\<close>

definition GetDispatcher ::
  "process \<Rightarrow> mx_handle_t \<Rightarrow> (dispatcher \<Rightarrow> 'a option) \<Rightarrow> mx_rights_t \<Rightarrow> mx_status + 'a" where
  "GetDispatcher up handle_value downcast check_rights =
     (case handles up handle_value of
        None \<Rightarrow> Inl ERR_BAD_HANDLE
      | Some h \<Rightarrow>
          (case downcast (dispatcher_of h) of
             None \<Rightarrow> Inl ERR_WRONG_TYPE
           | Some d \<Rightarrow>
               if check_rights \<subseteq> rights h then Inr d else Inl ERR_ACCESS_DENIED))"

text \<open>
  The kind requested by the \<^verbatim>\<open>RefPtr<T>\<close> the caller passes
  (\<^verbatim>\<open>DownCastDispatcher<T>\<close>).
\<close>

fun as_process :: "dispatcher \<Rightarrow> koid option" where
  "as_process (ProcessDispatcher p) = Some p"
| "as_process _ = None"

fun as_thread :: "dispatcher \<Rightarrow> koid option" where
  "as_thread (ThreadDispatcher t) = Some t"
| "as_thread _ = None"

fun as_resource :: "dispatcher \<Rightarrow> koid option" where
  "as_resource (ResourceDispatcher r) = Some r"
| "as_resource _ = None"

text \<open>
  Modelled from the spec: \<^verbatim>\<open>VmAspace::FindRegion\<close> is not
  among the repository's source files. It "finds the mapped region containing" the
  address; the regions of an address space do not overlap, so the first hit is the
  only one.
\<close>

definition contains_vaddr :: "vm_region \<Rightarrow> uintptr_t \<Rightarrow> bool" where
  "contains_vaddr r vaddr =
     (unat (base r) \<le> unat vaddr \<and> unat vaddr < unat (base r) + unat (region_size r))"

definition FindRegion :: "vm_region list \<Rightarrow> uintptr_t \<Rightarrow> vm_region option" where
  "FindRegion regions vaddr = find (\<lambda>r. contains_vaddr r vaddr) regions"

text \<open>
  Modelled from the spec: \<^verbatim>\<open>VmObject::ReadUser\<close> and
  \<^verbatim>\<open>VmObject::WriteUser\<close> are not among the repository's
  source files. A storage object is "an addressable byte container supporting
  bounded read/write at an offset": the transfer moves the bytes from the offset
  on, at most \<open>len\<close> of them and no more than the object holds (a
  short transfer at the end of the object), between the object and the user
  buffer. It reports the number of bytes moved (none when the offset is at or
  past the end of the object); a failing user copy is a copy-boundary failure
  (\<open>ERR_INVALID_ARGS\<close>) and moves nothing.
\<close>

definition ReadUser :: "kstate \<Rightarrow> vmo_id \<Rightarrow> user_ptr \<Rightarrow> u64 \<Rightarrow> mx_size_t \<Rightarrow> mx_status \<times> nat \<times> kstate" where
  "ReadUser s v ptr offset len =
     (let data = vmos s v;
          n = min (unat len) (length data - unat offset)
      in case copy_to_user (umem s) ptr (take n (drop (unat offset) data)) of
           None \<Rightarrow> (ERR_INVALID_ARGS, 0, s)
         | Some m \<Rightarrow> (NO_ERROR, n, s\<lparr>umem := m\<rparr>))"

definition WriteUser :: "kstate \<Rightarrow> vmo_id \<Rightarrow> user_ptr \<Rightarrow> u64 \<Rightarrow> mx_size_t \<Rightarrow> mx_status \<times> nat \<times> kstate" where
  "WriteUser s v ptr offset len =
     (let data = vmos s v;
          n = min (unat len) (length data - unat offset)
      in case copy_from_user (umem s) ptr n of
           None \<Rightarrow> (ERR_INVALID_ARGS, 0, s)
         | Some bs \<Rightarrow>
             (NO_ERROR, n,
              s\<lparr>vmos := (vmos s)(v := take (unat offset) data @ bs @ drop (unat offset + n) data)\<rparr>))"

text \<open>\<^verbatim>\<open>user_ptr<mx_size_t>::copy_to_user\<close>: the eight bytes of the value.\<close>

definition copy_to_user_size :: "kstate \<Rightarrow> user_ptr \<Rightarrow> nat \<Rightarrow> kstate option" where
  "copy_to_user_size s p v =
     (case copy_to_user (umem s) p (le_bytes 8 v) of
        None \<Rightarrow> None
      | Some m \<Rightarrow> Some (s\<lparr>umem := m\<rparr>))"

subsection \<open>\<^verbatim>\<open>sys_process_read_memory\<close> and \<^verbatim>\<open>sys_process_write_memory\<close>\<close>

text \<open>
  \<^verbatim>\<open>sys_process_read_memory\<close> (lines 137 to 175 of the file): the argument checks,
  the handle lookup, the address space, the region, its VM object, the transfer
  and the report of the number of bytes read.
\<close>

definition sys_process_read_memory ::
  "kstate \<Rightarrow> mx_handle_t \<Rightarrow> uintptr_t \<Rightarrow> user_ptr \<Rightarrow> mx_size_t \<Rightarrow> user_ptr \<Rightarrow> mx_status \<times> kstate" where
  "sys_process_read_memory s proc vaddr buffer len actual =
     (if buffer = 0 then (ERR_INVALID_ARGS, s)
      else if len = 0 \<or> len > kMaxDebugReadBlock then (ERR_INVALID_ARGS, s)
      else
        let up = GetCurrent s in
        case GetDispatcher up proc as_process {MX_RIGHT_READ, MX_RIGHT_WRITE} of
          Inl status \<Rightarrow> (status, s)
        | Inr p \<Rightarrow>
            (case aspace (procs s p) of
               None \<Rightarrow> (ERR_BAD_STATE, s)
             | Some regions \<Rightarrow>
                 (case FindRegion regions vaddr of
                    None \<Rightarrow> (ERR_NO_MEMORY, s)
                  | Some region \<Rightarrow>
                      (case vmo region of
                         None \<Rightarrow> (ERR_NO_MEMORY, s)
                       | Some v \<Rightarrow>
                           let offset = vaddr - base region + object_offset region;
                               (st, read, s1) = ReadUser s v buffer offset len
                           in if st = NO_ERROR
                              then (case copy_to_user_size s1 actual read of
                                      None \<Rightarrow> (ERR_INVALID_ARGS, s1)
                                    | Some s2 \<Rightarrow> (st, s2))
                              else (st, s1)))))"

text \<open>
  \<^verbatim>\<open>sys_process_write_memory\<close> (lines 177 to 214): the same steps, with
  \<open>MX_RIGHT_WRITE\<close> alone asked of the handle and \<^verbatim>\<open>WriteUser\<close> as the transfer.
\<close>

definition sys_process_write_memory ::
  "kstate \<Rightarrow> mx_handle_t \<Rightarrow> uintptr_t \<Rightarrow> user_ptr \<Rightarrow> mx_size_t \<Rightarrow> user_ptr \<Rightarrow> mx_status \<times> kstate" where
  "sys_process_write_memory s proc vaddr buffer len actual =
     (if buffer = 0 then (ERR_INVALID_ARGS, s)
      else if len = 0 \<or> len > kMaxDebugWriteBlock then (ERR_INVALID_ARGS, s)
      else
        let up = GetCurrent s in
        case GetDispatcher up proc as_process {MX_RIGHT_WRITE} of
          Inl status \<Rightarrow> (status, s)
        | Inr p \<Rightarrow>
            (case aspace (procs s p) of
               None \<Rightarrow> (ERR_BAD_STATE, s)
             | Some regions \<Rightarrow>
                 (case FindRegion regions vaddr of
                    None \<Rightarrow> (ERR_NO_MEMORY, s)
                  | Some region \<Rightarrow>
                      (case vmo region of
                         None \<Rightarrow> (ERR_NO_MEMORY, s)
                       | Some v \<Rightarrow>
                           let offset = vaddr - base region + object_offset region;
                               (st, written, s1) = WriteUser s v buffer offset len
                           in if st = NO_ERROR
                              then (case copy_to_user_size s1 actual written of
                                      None \<Rightarrow> (ERR_INVALID_ARGS, s1)
                                    | Some s2 \<Rightarrow> (st, s2))
                              else (st, s1)))))"

subsection \<open>\<^verbatim>\<open>sys_debug_write\<close>\<close>

definition platform_dputc :: "kstate \<Rightarrow> u8 \<Rightarrow> kstate" where
  "platform_dputc s c = s\<lparr>console := console s @ [c]\<rparr>"

text \<open>The loop \<^verbatim>\<open>for (uint32_t i = 0; i < len; i++) platform_dputc(buf[i]);\<close> from \<open>i\<close> on.\<close>

function dputc_loop :: "kstate \<Rightarrow> u8 list \<Rightarrow> u32 \<Rightarrow> u32 \<Rightarrow> kstate" where
  "dputc_loop s buf i len =
     (if i < len then dputc_loop (platform_dputc s (buf ! unat i)) buf (i + 1) len else s)"
  by pat_completeness auto
termination
proof (relation "measure (\<lambda>(s, buf, i, len). unat len - unat i)")
  show "wf (measure (\<lambda>(s, buf, i, len). unat len - unat i))"
    by simp
next
  fix s :: kstate and buf :: "u8 list" and i len :: u32
  assume less: "i < len"
  then have "unat i < unat len"
    by (simp add: word_less_nat_alt)
  moreover from less have "unat (i + 1) = unat i + 1"
    by (metis (no_types, lifting) add.commute add_0 inc_i inc_le
        unat_plus_simple unsigned_0 unsigned_1 word_gt_0)
  ultimately show "((platform_dputc s (buf ! unat i), buf, i + 1, len), (s, buf, i, len))
      \<in> measure (\<lambda>(s, buf, i, len). unat len - unat i)"
    by simp
qed

declare dputc_loop.simps [simp del]

text \<open>
  The result is the \<^verbatim>\<open>mx_status_t\<close> the call returns: an
  error status (\<open>Inl\<close>) or the number of bytes written
  (\<open>Inr\<close>). \<open>buf\<close> holds the \<open>len\<close> bytes
  copied in.
\<close>

text \<open>\<^verbatim>\<open>sys_debug_write\<close> (lines 78 to 92).\<close>

definition sys_debug_write :: "kstate \<Rightarrow> user_ptr \<Rightarrow> u32 \<Rightarrow> (mx_status + u32) \<times> kstate" where
  "sys_debug_write s ptr len0 =
     (let len = (if len0 > kMaxDebugWriteSize then kMaxDebugWriteSize else len0) in
      case copy_from_user (umem s) ptr (unat len) of
        None \<Rightarrow> (Inl ERR_INVALID_ARGS, s)
      | Some buf \<Rightarrow> (Inr len, dputc_loop s buf 0 len))"

subsection \<open>\<^verbatim>\<open>sys_debug_transfer_handle\<close>\<close>

text \<open>
  Modelled from the spec: \<^verbatim>\<open>RemoveHandle\<close> and
  \<^verbatim>\<open>AddHandle\<close> of the handle table are not among the
  repository's source files. Removal takes the handle filed under a value out of
  the table and hands it over (nothing, when the value is absent); insertion files
  the handle under the value the receiving process gives it.
\<close>

definition RemoveHandle :: "process \<Rightarrow> mx_handle_t \<Rightarrow> handle option \<times> process" where
  "RemoveHandle up handle_value =
     (handles up handle_value, up\<lparr>handles := (handles up)(handle_value := None)\<rparr>)"

definition AddHandle :: "process \<Rightarrow> handle \<Rightarrow> process" where
  "AddHandle p h = p\<lparr>handles := (handles p)(MapHandleToValue p h \<mapsto> h)\<rparr>"

text \<open>
  The result is the \<^verbatim>\<open>mx_handle_t\<close> the call returns: an
  error status (\<open>Inl\<close>) or the handle's value in the target process
  (\<open>Inr\<close>). \<^verbatim>\<open>process.get() == up\<close> compares
  object identities.
\<close>

text \<open>\<^verbatim>\<open>sys_debug_transfer_handle\<close> (lines 115 to 135).\<close>

definition sys_debug_transfer_handle ::
  "kstate \<Rightarrow> mx_handle_t \<Rightarrow> mx_handle_t \<Rightarrow> (mx_status + mx_handle_t) \<times> kstate" where
  "sys_debug_transfer_handle s proc src_handle =
     (let up = GetCurrent s in
      case GetDispatcher up proc as_process {MX_RIGHT_READ, MX_RIGHT_WRITE} of
        Inl status \<Rightarrow> (Inl status, s)
      | Inr p \<Rightarrow>
          if p = current s then (Inl ERR_INVALID_ARGS, s)
          else
            let (removed, up') = RemoveHandle up src_handle;
                s1 = s\<lparr>procs := (procs s)(current s := up')\<rparr>
            in (case removed of
                  None \<Rightarrow> (Inl ERR_BAD_HANDLE, s1)
                | Some h \<Rightarrow>
                    (let target = procs s1 p;
                         dest_hv = MapHandleToValue target h;
                         target' = AddHandle target h
                     in (Inr dest_hv, s1\<lparr>procs := (procs s1)(p := target')\<rparr>))))"

subsection \<open>\<^verbatim>\<open>sys_ktrace_write\<close>\<close>

text \<open>
  Modelled from the spec: \<^verbatim>\<open>validate_resource_handle\<close> is
  not among the repository's source files. It "checks that the handle resolves, in
  the caller's handle table, to an object of the expected capability kind", and
  asks for no rights.
\<close>

definition validate_resource_handle :: "kstate \<Rightarrow> mx_handle_t \<Rightarrow> mx_status" where
  "validate_resource_handle s handle_value =
     (case GetDispatcher (GetCurrent s) handle_value as_resource {} of
        Inl status \<Rightarrow> status
      | Inr r \<Rightarrow> NO_ERROR)"

text \<open>
  Modelled from the spec: \<^verbatim>\<open>ktrace_open\<close> is not among the
  repository's source files. It "opens a fixed-width probe slot keyed by the event
  id; if none is available (log full/disabled)" it returns null. The slot is a
  fresh record at the end of the log, named by its index.
\<close>

definition ktrace_open :: "ktrace_state \<Rightarrow> ktrace_tag \<Rightarrow> (nat \<times> ktrace_state) option" where
  "ktrace_open ks t =
     (if \<not> enabled ks \<or> capacity ks \<le> length (records ks) then None
      else Some (length (records ks),
                 ks\<lparr>records := records ks @ [\<lparr>tag = t, args = [0, 0]\<rparr>]\<rparr>))"

text \<open>\<^verbatim>\<open>args[k] = v\<close> through the pointer \<^verbatim>\<open>ktrace_open\<close> returned.\<close>

definition slot_store :: "ktrace_state \<Rightarrow> nat \<Rightarrow> nat \<Rightarrow> u32 \<Rightarrow> ktrace_state" where
  "slot_store ks slot k v =
     ks\<lparr>records := (records ks)[slot := (records ks ! slot)\<lparr>args := (args (records ks ! slot))[k := v]\<rparr>]\<rparr>"

text \<open>
  \<^verbatim>\<open>sys_ktrace_write\<close> (lines 246 to 266); \<^verbatim>\<open>(status = validate_resource_handle(handle)) < 0\<close>
  is \<open>status \<noteq> NO_ERROR\<close>.
\<close>

definition sys_ktrace_write ::
  "kstate \<Rightarrow> mx_handle_t \<Rightarrow> u32 \<Rightarrow> u32 \<Rightarrow> u32 \<Rightarrow> mx_status \<times> kstate" where
  "sys_ktrace_write s handle_value event_id arg0 arg1 =
     (let status = validate_resource_handle s handle_value in
      if status \<noteq> NO_ERROR then (status, s)
      else if event_id > 0x7FF then (ERR_INVALID_ARGS, s)
      else
        case ktrace_open (ktrace s) (TAG_PROBE_24 event_id) of
          None \<Rightarrow> (ERR_UNAVAILABLE, s)
        | Some (slot, ks) \<Rightarrow>
            (NO_ERROR, s\<lparr>ktrace := slot_store (slot_store ks slot 0 arg0) slot 1 arg1\<rparr>))"

subsection \<open>\<^verbatim>\<open>sys_thread_read_state\<close>\<close>

text \<open>
  Modelled from the spec: the thread's state reader
  \<^verbatim>\<open>ReadState\<close> is not among the repository's source files.
  Called "with an undersized buffer" it "returns BufferTooSmall and reports the
  true required size"; with a buffer that is large enough it fills in the blob and
  reports its size; a kind the thread does not have is an error that reports
  nothing. The result is the status, the buffer and the length after the call.
\<close>

definition ReadState :: "thread \<Rightarrow> u32 \<Rightarrow> u8 list \<Rightarrow> u32 \<Rightarrow> mx_status \<times> u8 list \<times> u32" where
  "ReadState t state_kind buffer buffer_len =
     (case regs t state_kind of
        None \<Rightarrow> (ERR_NOT_SUPPORTED, buffer, buffer_len)
      | Some blob \<Rightarrow>
          if unat buffer_len < length blob
          then (ERR_BUFFER_TOO_SMALL, buffer, of_nat (length blob))
          else (NO_ERROR, blob @ drop (length blob) buffer, of_nat (length blob)))"

text \<open>
  Modelled from the spec: the allocation \<^verbatim>\<open>new (&ac)
  uint8_t[n]\<close> is "a fallible path that returns an explicit out of memory
  result"; it succeeds when the heap still has \<open>n\<close> bytes. The
  temporary buffer is released on return.
\<close>

definition alloc_check :: "kstate \<Rightarrow> nat \<Rightarrow> bool" where
  "alloc_check s n = (n \<le> heap_free s)"

text \<open>\<^verbatim>\<open>user_ptr<uint32_t>\<close>: \<^verbatim>\<open>copy_from_user\<close> and \<^verbatim>\<open>copy_to_user\<close> of four bytes.\<close>

definition copy_from_user_u32 :: "kstate \<Rightarrow> user_ptr \<Rightarrow> u32 option" where
  "copy_from_user_u32 s p = map_option (\<lambda>bs. of_nat (le_val bs)) (copy_from_user (umem s) p 4)"

definition copy_to_user_u32 :: "kstate \<Rightarrow> user_ptr \<Rightarrow> u32 \<Rightarrow> kstate option" where
  "copy_to_user_u32 s p v =
     (case copy_to_user (umem s) p (le_bytes 4 (unat v)) of
        None \<Rightarrow> None
      | Some m \<Rightarrow> Some (s\<lparr>umem := m\<rparr>))"

text \<open>
  The tail of \<^verbatim>\<open>sys_thread_read_state\<close> after the length
  has been reported: \<^verbatim>\<open>if (status != NO_ERROR) return
  status;\<close> and the copy of \<open>buffer_len\<close> bytes of the temporary
  buffer to the caller.
\<close>

definition read_state_copy_out ::
  "kstate \<Rightarrow> mx_status \<Rightarrow> user_ptr \<Rightarrow> u8 list \<Rightarrow> u32 \<Rightarrow> mx_status \<times> kstate" where
  "read_state_copy_out s status buffer_ptr bytes buffer_len =
     (if status \<noteq> NO_ERROR then (status, s)
      else
        case copy_to_user (umem s) buffer_ptr (take (unat buffer_len) bytes) of
          None \<Rightarrow> (ERR_INVALID_ARGS, s)
        | Some m \<Rightarrow> (NO_ERROR, s\<lparr>umem := m\<rparr>))"

text \<open>
  \<open>kMaxThreadStateSize\<close> is
  \<^verbatim>\<open>MX_MAX_THREAD_STATE_SIZE\<close>, a platform constant defined
  outside the repository's source files: the syscall takes it as a parameter. The
  temporary buffer \<^verbatim>\<open>new uint8_t[buffer_len]\<close> starts with
  indeterminate bytes in C++; the model starts it with zeros.
\<close>

text \<open>\<^verbatim>\<open>sys_thread_read_state\<close> (lines 268 to 311).\<close>

definition sys_thread_read_state ::
  "u32 \<Rightarrow> kstate \<Rightarrow> mx_handle_t \<Rightarrow> u32 \<Rightarrow> user_ptr \<Rightarrow> user_ptr \<Rightarrow> mx_status \<times> kstate" where
  "sys_thread_read_state kMaxThreadStateSize s handle_value state_kind buffer_ptr buffer_len_ptr =
     (let up = GetCurrent s in
      case GetDispatcher up handle_value as_thread {MX_RIGHT_READ} of
        Inl status \<Rightarrow> (status, s)
      | Inr t \<Rightarrow>
          (case copy_from_user_u32 s buffer_len_ptr of
             None \<Rightarrow> (ERR_INVALID_ARGS, s)
           | Some buffer_len \<Rightarrow>
               if buffer_len > kMaxThreadStateSize then (ERR_INVALID_ARGS, s)
               else if \<not> alloc_check s (unat buffer_len) then (ERR_NO_MEMORY, s)
               else
                 let tmp_buf = replicate (unat buffer_len) 0;
                     (status, bytes, buffer_len') =
                        ReadState (threads s t) state_kind tmp_buf buffer_len
                 in if status = NO_ERROR \<or> status = ERR_BUFFER_TOO_SMALL
                    then (case copy_to_user_u32 s buffer_len_ptr buffer_len' of
                            None \<Rightarrow> (ERR_INVALID_ARGS, s)
                          | Some s1 \<Rightarrow>
                              read_state_copy_out s1 status buffer_ptr bytes buffer_len')
                    else read_state_copy_out s status buffer_ptr bytes buffer_len'))"

subsection \<open>A concrete kernel state\<close>

text \<open>
  The state the closed examples below are evaluated in. Process 1 is the caller,
  whose buffers lie in a region at \<open>0x2000\<close> backed by VM object 1,
  process 2 a live target with a region at \<open>0x1000\<close> of length 4096
  backed by VM object 0 at object offset 0 (and a region at \<open>0x8000\<close>
  with no backing object), process 3 a target that has been torn down.
\<close>

fun umem_of :: "(nat \<times> uperm \<times> u8 list) list \<Rightarrow> user_mem" where
  "umem_of [] = Map.empty"
| "umem_of ((a, perm, bs) # segs) =
     (\<lambda>x. if a \<le> x \<and> x < a + length bs then Some (perm, bs ! (x - a)) else umem_of segs x)"

definition ex_region :: vm_region where
  "ex_region = \<lparr>base = 0x1000, region_size = 0x1000, object_offset = 0, vmo = Some 0\<rparr>"

definition ex_hole :: vm_region where
  "ex_hole = \<lparr>base = 0x8000, region_size = 0x1000, object_offset = 0, vmo = None\<rparr>"

definition ex_caller_region :: vm_region where
  "ex_caller_region = \<lparr>base = 0x2000, region_size = 0x4000, object_offset = 0, vmo = Some 1\<rparr>"

definition ex_caller :: process where
  "ex_caller =
     \<lparr>handles =
        [10 \<mapsto> \<lparr>dispatcher_of = ProcessDispatcher 2, rights = {MX_RIGHT_READ, MX_RIGHT_WRITE}\<rparr>,
         11 \<mapsto> \<lparr>dispatcher_of = ProcessDispatcher 2, rights = {MX_RIGHT_WRITE}\<rparr>,
         12 \<mapsto> \<lparr>dispatcher_of = ProcessDispatcher 1, rights = {MX_RIGHT_READ, MX_RIGHT_WRITE}\<rparr>,
         13 \<mapsto> \<lparr>dispatcher_of = ProcessDispatcher 3, rights = {MX_RIGHT_READ, MX_RIGHT_WRITE}\<rparr>,
         14 \<mapsto> \<lparr>dispatcher_of = ThreadDispatcher 7, rights = {MX_RIGHT_READ}\<rparr>,
         15 \<mapsto> \<lparr>dispatcher_of = ResourceDispatcher 9, rights = {}\<rparr>],
      aspace = Some [ex_caller_region],
      MapHandleToValue = (\<lambda>h. 40)\<rparr>"

definition ex_target :: process where
  "ex_target =
     \<lparr>handles = Map.empty,
      aspace = Some [ex_region, ex_hole],
      MapHandleToValue = (\<lambda>h. 41)\<rparr>"

definition ex_dead :: process where
  "ex_dead = \<lparr>handles = Map.empty, aspace = None, MapHandleToValue = (\<lambda>h. 42)\<rparr>"

definition ex_thread :: thread where
  "ex_thread = \<lparr>regs = [0 \<mapsto> [1, 2, 3, 4, 5, 6, 7, 8]]\<rparr>"

text \<open>
  The caller's memory: a source buffer of four bytes \<open>0xAB\<close> at
  \<open>0x2000\<close>, a destination buffer at \<open>0x2100\<close>, an
  eight-byte cell at \<open>0x3000\<close>, a read-only length cell holding 0 at
  \<open>0x4000\<close>, a writable length cell holding 8 at
  \<open>0x4100\<close>, an eight-byte buffer at \<open>0x4200\<close> and 300
  read-only bytes \<open>0x41\<close> at \<open>0x5000\<close>.
\<close>

definition ex_umem :: user_mem where
  "ex_umem = umem_of
     [(0x2000, UserRW, [0xAB, 0xAB, 0xAB, 0xAB]),
      (0x2100, UserRW, [0, 0, 0, 0]),
      (0x3000, UserRW, [0, 0, 0, 0, 0, 0, 0, 0]),
      (0x4000, UserRO, [0, 0, 0, 0]),
      (0x4100, UserRW, [8, 0, 0, 0]),
      (0x4200, UserRW, [0, 0, 0, 0, 0, 0, 0, 0]),
      (0x5000, UserRO, replicate 300 0x41)]"

definition ex_state :: kstate where
  "ex_state =
     \<lparr>current = 1,
      procs = (\<lambda>k. if k = 1 then ex_caller else if k = 2 then ex_target else ex_dead),
      threads = (\<lambda>k. ex_thread),
      vmos = (\<lambda>v. replicate 4096 0),
      umem = ex_umem,
      console = [],
      ktrace = \<lparr>enabled = True, capacity = 2, records = []\<rparr>,
      heap_free = 4096\<rparr>"

section \<open>Auxiliary facts\<close>

subsection \<open>User memory\<close>

lemma user_readable_iff: "user_readable m p n \<longleftrightarrow> (\<forall>i<n. m (unat p + i) \<noteq> None)"
  by (auto simp: user_readable_def list_all_iff)

lemma user_writable_iff:
  "user_writable m p n \<longleftrightarrow> (\<forall>i<n. map_option fst (m (unat p + i)) = Some UserRW)"
  by (auto simp: user_writable_def list_all_iff)


lemma copy_to_user_perm:
  assumes "copy_to_user m p bs = Some m'"
  shows "map_option fst (m' a) = Some UserRW \<longleftrightarrow> map_option fst (m a) = Some UserRW"
proof (cases "unat p \<le> a \<and> a < unat p + length bs")
  case True
  then obtain i where i: "i < length bs" "a = unat p + i"
    by (metis add.commute le_Suc_ex nat_add_left_cancel_less)
  from assms have w: "user_writable m p (length bs)"
    and m': "m' = (\<lambda>a. if unat p \<le> a \<and> a < unat p + length bs
                      then Some (UserRW, bs ! (a - unat p)) else m a)"
    by (auto simp: copy_to_user_def split: if_splits)
  from w i have "map_option fst (m a) = Some UserRW"
    by (simp add: user_writable_iff)
  with True m' show ?thesis by simp
next
  case False
  with assms show ?thesis
    by (auto simp: copy_to_user_def split: if_splits)
qed

lemma copy_to_user_writable:
  "copy_to_user m p bs = Some m' \<Longrightarrow> user_writable m' q k = user_writable m q k"
  unfolding user_writable_def list_all_iff
  using copy_to_user_perm [of m p bs m'] by blast

lemma copy_to_user_read_back:
  assumes "copy_to_user m p bs = Some m'"
  shows "copy_from_user m' p (length bs) = Some bs"
proof -
  from assms have m': "m' = (\<lambda>a. if unat p \<le> a \<and> a < unat p + length bs
                      then Some (UserRW, bs ! (a - unat p)) else m a)"
    by (auto simp: copy_to_user_def split: if_splits)
  have "user_readable m' p (length bs)"
    by (simp add: user_readable_iff m')
  moreover have "map (\<lambda>i. snd (the (m' (unat p + i)))) [0..<length bs] = bs"
    by (rule nth_equalityI) (simp_all add: m')
  ultimately show ?thesis
    by (simp add: copy_from_user_def)
qed


lemma copy_to_user_Some:
  "user_writable m p (length bs) \<Longrightarrow> \<exists>m'. copy_to_user m p bs = Some m'"
  by (simp add: copy_to_user_def)

lemma copy_to_user_None_iff: "copy_to_user m p bs = None \<longleftrightarrow> \<not> user_writable m p (length bs)"
  by (simp add: copy_to_user_def)

lemma length_le_bytes: "length (le_bytes k v) = k"
  by (induction k arbitrary: v) simp_all

lemma le_val_le_bytes: "le_val (le_bytes k v) = v mod 256 ^ k"
proof (induction k arbitrary: v)
  case 0
  then show ?case by simp
next
  case (Suc k)
  have "unat (of_nat (v mod 256) :: u8) = v mod 256"
    by (simp add: unat_of_nat)
  then show ?case
    by (simp add: Suc mod_mult2_eq)
qed

lemma le_bytes_numeral:
  "le_bytes (numeral k) v = of_nat (v mod 256) # le_bytes (pred_numeral k) (v div 256)"
proof -
  have "numeral k = Suc (pred_numeral k)"
    by (rule numeral_eq_Suc)
  then show ?thesis
    by (simp only: le_bytes.simps)
qed

lemma le_val_le_bytes_u32: "of_nat (le_val (le_bytes 4 (unat (v :: u32)))) = v"
proof -
  have "unat v < 2 ^ 32"
    using unsigned_less [of v] by simp
  then have "unat v mod 256 ^ 4 = unat v"
    by simp
  then show ?thesis
    by (simp only: le_val_le_bytes) simp
qed

lemma copy_to_user_size_Some:
  assumes "user_writable (umem s) p 8"
  shows "\<exists>m. copy_to_user (umem s) p (le_bytes 8 v) = Some m \<and>
             copy_to_user_size s p v = Some (s\<lparr>umem := m\<rparr>) \<and>
             copy_from_user m p 8 = Some (le_bytes 8 v)"
proof -
  from assms obtain m where m: "copy_to_user (umem s) p (le_bytes 8 v) = Some m"
    using copy_to_user_Some [of "umem s" p "le_bytes 8 v"] by (auto simp: length_le_bytes)
  from copy_to_user_read_back [OF m] have "copy_from_user m p 8 = Some (le_bytes 8 v)"
    by (simp add: length_le_bytes)
  with m show ?thesis
    by (simp add: copy_to_user_size_def)
qed

lemma copy_to_user_size_None:
  "\<not> user_writable (umem s) p 8 \<Longrightarrow> copy_to_user_size s p v = None"
  by (simp add: copy_to_user_size_def copy_to_user_def length_le_bytes)

lemma copy_to_user_u32_Some:
  assumes "user_writable (umem s) p 4"
  shows "\<exists>s1. copy_to_user_u32 s p v = Some s1 \<and> copy_from_user_u32 s1 p = Some v \<and>
              (\<exists>m. copy_to_user (umem s) p (le_bytes 4 (unat v)) = Some m \<and> s1 = s\<lparr>umem := m\<rparr>)"
proof -
  from assms obtain m where m: "copy_to_user (umem s) p (le_bytes 4 (unat v)) = Some m"
    using copy_to_user_Some [of "umem s" p "le_bytes 4 (unat v)"]
    by (auto simp only: length_le_bytes)
  from copy_to_user_read_back [OF m] have "copy_from_user m p 4 = Some (le_bytes 4 (unat v))"
    by (simp only: length_le_bytes)
  then have "copy_from_user_u32 (s\<lparr>umem := m\<rparr>) p = Some v"
    by (simp add: copy_from_user_u32_def le_val_le_bytes_u32)
  with m show ?thesis
    by (simp add: copy_to_user_u32_def)
qed

lemma copy_to_user_u32_None:
  "\<not> user_writable (umem s) p 4 \<Longrightarrow> copy_to_user_u32 s p v = None"
  by (simp add: copy_to_user_u32_def copy_to_user_def length_le_bytes)

subsection \<open>Handle lookup, limits and collaborators\<close>

lemma GetDispatcher_Inr_iff:
  "GetDispatcher up hv dc R = Inr d \<longleftrightarrow>
     (\<exists>h. handles up hv = Some h \<and> dc (dispatcher_of h) = Some d \<and> R \<subseteq> rights h)"
  by (auto simp: GetDispatcher_def split: option.splits)

lemma as_process_Some: "as_process d = Some p \<longleftrightarrow> d = ProcessDispatcher p"
  by (cases d) auto

lemma block_limit: "(len > kMaxDebugReadBlock) = (64 * 1024 * 1024 < unat len)"
  "(len > kMaxDebugWriteBlock) = (64 * 1024 * 1024 < unat len)"
  by (simp_all add: kMaxDebugReadBlock_def kMaxDebugWriteBlock_def word_less_nat_alt)

lemma GetCurrent_frame [simp]:
  "GetCurrent (s\<lparr>umem := m\<rparr>) = GetCurrent s"
  "GetCurrent (s\<lparr>vmos := x\<rparr>) = GetCurrent s"
  by (simp_all add: GetCurrent_def)


lemma WriteUser_effect:
  assumes "WriteUser s v ptr offset len = (NO_ERROR, n, s1)"
  shows "\<exists>bs. copy_from_user (umem s) ptr n = Some bs \<and>
              n = min (unat len) (length (vmos s v) - unat offset) \<and>
              s1 = s\<lparr>vmos := (vmos s)(v := take (unat offset) (vmos s v) @ bs @
                                           drop (unat offset + n) (vmos s v))\<rparr>"
  using assms by (auto simp: WriteUser_def Let_def split: option.splits)

lemma ktrace_open_Some:
  "ktrace_open ks t = Some (slot, ks') \<Longrightarrow>
     slot = length (records ks) \<and> ks' = ks\<lparr>records := records ks @ [\<lparr>tag = t, args = [0, 0]\<rparr>]\<rparr>"
  by (auto simp: ktrace_open_def split: if_splits)

subsection \<open>The console loop\<close>

lemma unat_succ_less: "(i :: u32) < len \<Longrightarrow> unat (i + 1) = Suc (unat i)"
  by (metis (no_types, lifting) Suc_eq_plus1 add.commute add_0 inc_i inc_le
        unat_plus_simple unsigned_0 unsigned_1 word_gt_0)

lemma dputc_loop_console:
  "unat len \<le> length buf \<Longrightarrow> i \<le> len \<Longrightarrow>
   dputc_loop s buf i len = s\<lparr>console := console s @ drop (unat i) (take (unat len) buf)\<rparr>"
proof (induction s buf i len rule: dputc_loop.induct)
  case (1 s buf i len)
  show ?case
  proof (cases "i < len")
    case True
    then have suc: "unat (i + 1) = Suc (unat i)"
      by (rule unat_succ_less)
    from True have lt: "unat i < unat len"
      by (simp add: word_less_nat_alt)
    then have le: "i + 1 \<le> len"
      using suc by (simp add: word_le_nat_alt)
    from lt "1.prems" have "unat i < length (take (unat len) buf)"
      by simp
    then have "drop (unat i) (take (unat len) buf) =
        take (unat len) buf ! unat i # drop (Suc (unat i)) (take (unat len) buf)"
      by (rule Cons_nth_drop_Suc [symmetric])
    with lt have split: "drop (unat i) (take (unat len) buf) =
        buf ! unat i # drop (Suc (unat i)) (take (unat len) buf)"
      by simp
    have "dputc_loop s buf i len = dputc_loop (platform_dputc s (buf ! unat i)) buf (i + 1) len"
      using True by (simp add: dputc_loop.simps [of s buf i len])
    also have "\<dots> = (platform_dputc s (buf ! unat i))
        \<lparr>console := console (platform_dputc s (buf ! unat i)) @ drop (unat (i + 1)) (take (unat len) buf)\<rparr>"
      using "1.IH" [OF True] "1.prems" le by simp
    also have "\<dots> = s\<lparr>console := console s @ drop (unat i) (take (unat len) buf)\<rparr>"
      using lt by (simp add: platform_dputc_def suc split)
    finally show ?thesis .
  next
    case False
    with "1.prems" have "i = len" by simp
    then show ?thesis
      by (simp add: dputc_loop.simps [of s buf len len])
  qed
qed

subsection \<open>The concrete state\<close>

lemma ex_lookup [simp]:
  "GetCurrent ex_state = ex_caller" "procs ex_state 2 = ex_target" "procs ex_state 3 = ex_dead"
  "procs ex_state 1 = ex_caller" "current ex_state = 1"
  by (simp_all add: ex_state_def GetCurrent_def)

lemma ex_caller_Suc [simp]: "procs ex_state (Suc 0) = ex_caller"
  by (simp add: ex_state_def)

lemma ex_handles [simp]:
  "handles ex_caller 10 = Some \<lparr>dispatcher_of = ProcessDispatcher 2, rights = {MX_RIGHT_READ, MX_RIGHT_WRITE}\<rparr>"
  "handles ex_caller 11 = Some \<lparr>dispatcher_of = ProcessDispatcher 2, rights = {MX_RIGHT_WRITE}\<rparr>"
  "handles ex_caller 12 = Some \<lparr>dispatcher_of = ProcessDispatcher 1, rights = {MX_RIGHT_READ, MX_RIGHT_WRITE}\<rparr>"
  "handles ex_caller 13 = Some \<lparr>dispatcher_of = ProcessDispatcher 3, rights = {MX_RIGHT_READ, MX_RIGHT_WRITE}\<rparr>"
  "handles ex_caller 14 = Some \<lparr>dispatcher_of = ThreadDispatcher 7, rights = {MX_RIGHT_READ}\<rparr>"
  "handles ex_caller 15 = Some \<lparr>dispatcher_of = ResourceDispatcher 9, rights = {}\<rparr>"
  "handles ex_caller 99 = None"
  by (simp_all add: ex_caller_def)

lemma ex_find [simp]:
  "FindRegion [ex_region, ex_hole] 0x1000 = Some ex_region"
  "FindRegion [ex_region, ex_hole] 0x8000 = Some ex_hole"
  "FindRegion [ex_region, ex_hole] 0x7000 = None"
  by (simp_all add: FindRegion_def contains_vaddr_def ex_region_def ex_hole_def)

lemma ex_disp [simp]:
  "GetDispatcher ex_caller 10 as_process {MX_RIGHT_READ, MX_RIGHT_WRITE} = Inr 2"
  "GetDispatcher ex_caller 10 as_process {MX_RIGHT_WRITE} = Inr 2"
  "GetDispatcher ex_caller 11 as_process {MX_RIGHT_WRITE} = Inr 2"
  "GetDispatcher ex_caller 12 as_process {MX_RIGHT_READ, MX_RIGHT_WRITE} = Inr 1"
  "GetDispatcher ex_caller 13 as_process {MX_RIGHT_READ, MX_RIGHT_WRITE} = Inr 3"
  "GetDispatcher ex_caller 13 as_process {MX_RIGHT_WRITE} = Inr 3"
  "GetDispatcher ex_caller 14 as_thread {MX_RIGHT_READ} = Inr 7"
  "GetDispatcher ex_caller 15 as_resource {} = Inr 9"
  by (simp_all add: GetDispatcher_def)

lemma ex_aspace [simp]: "aspace ex_target = Some [ex_region, ex_hole]"
  by (simp add: ex_target_def)

lemma ex_caller_maps [simp]:
  "\<not> caller_maps_vmo ex_state 0" "caller_maps_vmo ex_state 1" "caller_maps_vmo ex_state (Suc 0)"
  by (simp_all add: caller_maps_vmo_def ex_caller_def ex_caller_region_def)

lemma ex_region_sel [simp]:
  "base ex_region = 0x1000" "object_offset ex_region = 0" "vmo ex_region = Some 0"
  by (simp_all add: ex_region_def)

lemma ex_threads [simp]: "threads ex_state t = ex_thread" "heap_free ex_state = 4096"
  by (simp_all add: ex_state_def)

lemma ex_umem_state [simp]: "umem ex_state = ex_umem" "vmos ex_state v = replicate 4096 0"
  by (simp_all add: ex_state_def)

lemma umem_ex_0 [simp]: "ex_umem x = None" if "x < 0x2000"
  using that by (simp add: ex_umem_def)

lemma ex_umem_text: "ex_umem (0x5000 + i) = Some (UserRO, 0x41)" if "i < 300"
  using that by (simp add: ex_umem_def)

lemma ex_copy_text: "copy_from_user (umem ex_state) 0x5000 256 = Some (replicate 256 0x41)"
proof -
  have "user_readable ex_umem 0x5000 256"
    by (simp add: user_readable_def list_all_iff ex_umem_text)
  moreover have "map (\<lambda>i. snd (the (ex_umem (unat (0x5000 :: u64) + i)))) [0..<256] = replicate 256 0x41"
    by (rule nth_equalityI) (simp_all add: ex_umem_text)
  ultimately show ?thesis
    by (simp add: copy_from_user_def ex_state_def)
qed

lemma ex_writable:
  "user_writable ex_umem 0x2000 4" "user_writable ex_umem 0x2100 4"
  "user_writable ex_umem 0x3000 8" "user_writable ex_umem 0x4100 4"
  "user_writable ex_umem 0x4200 8"
  "\<not> user_writable ex_umem 0 8" "\<not> user_writable ex_umem 0x4000 4"
  by (simp_all add: user_writable_def ex_umem_def upt_conv_Cons)

lemma ex_copy_from:
  "copy_from_user ex_umem 0x2000 4 = Some [0xAB, 0xAB, 0xAB, 0xAB]"
  "copy_from_user ex_umem 0x4000 4 = Some [0, 0, 0, 0]"
  "copy_from_user ex_umem 0x4100 4 = Some [8, 0, 0, 0]"
  "copy_from_user ex_umem 0x2100 4 = Some [0, 0, 0, 0]"
  by (simp_all add: copy_from_user_def user_readable_def ex_umem_def upt_conv_Cons)

lemma ex_u32:
  "copy_from_user_u32 ex_state 0x4000 = Some 0"
  "copy_from_user_u32 ex_state 0x4100 = Some 8"
  "copy_from_user_u32 ex_state 0x2100 = Some 0"
  by (simp_all add: copy_from_user_u32_def ex_copy_from)

lemma ex_ReadUser:
  "\<exists>m. copy_to_user ex_umem 0x2100 (replicate 4 0) = Some m \<and>
       ReadUser ex_state 0 0x2100 0 4 = (NO_ERROR, 4, ex_state\<lparr>umem := m\<rparr>)"
proof -
  from ex_writable(2) obtain m where "copy_to_user ex_umem 0x2100 (replicate 4 0) = Some m"
    using copy_to_user_Some [of ex_umem "0x2100" "replicate 4 0"] by auto
  then show ?thesis
    by (simp add: ReadUser_def)
qed

lemma ex_WriteUser:
  "WriteUser ex_state 0 0x2000 0 4 =
     (NO_ERROR, 4, ex_state\<lparr>vmos := (vmos ex_state)(0 := [0xAB, 0xAB, 0xAB, 0xAB] @ replicate 4092 0)\<rparr>)"
  by (simp add: WriteUser_def ex_copy_from)

lemma ex_ReadState:
  "ReadState ex_thread 0 [] 0 = (ERR_BUFFER_TOO_SMALL, [], 8)"
  "ReadState ex_thread 0 (replicate 8 0) 8 = (NO_ERROR, [1, 2, 3, 4, 5, 6, 7, 8], 8)"
  by (simp_all add: ReadState_def ex_thread_def)

lemma ex_read_ok:
  "fst (sys_process_read_memory ex_state 10 0x1000 0x2100 4 0x3000) = NO_ERROR"
proof -
  from ex_ReadUser obtain m where m: "copy_to_user ex_umem 0x2100 (replicate 4 0) = Some m"
    and r: "ReadUser ex_state 0 0x2100 0 4 = (NO_ERROR, 4, ex_state\<lparr>umem := m\<rparr>)"
    by blast
  from copy_to_user_writable [OF m] ex_writable(3) have "user_writable (umem (ex_state\<lparr>umem := m\<rparr>)) 0x3000 8"
    by simp
  from copy_to_user_size_Some [OF this, of 4] obtain m' where
    "copy_to_user_size (ex_state\<lparr>umem := m\<rparr>) 0x3000 4 = Some (ex_state\<lparr>umem := m, umem := m'\<rparr>)"
    by auto
  then show ?thesis
    by (simp add: sys_process_read_memory_def kMaxDebugReadBlock_def r)
qed

section \<open>The claims\<close>

subsection \<open>C1\<close>

text \<open>
  C1. \<^verbatim>\<open>sys_process_read_memory\<close> looks the target-process handle up in the caller's
  handle table asking for both \<open>MX_RIGHT_READ\<close> and \<open>MX_RIGHT_WRITE\<close>. A call can
  only succeed when the handle is filed there for a process with both rights; and
  a call that has passed the argument checks and whose handle is absent, of another
  kind or short of a right returns the error of that lookup and leaves the kernel
  state (user memory and VM objects included) as it was: no address is resolved
  and no byte is moved.
\<close>

theorem C1_read_memory_handle_rights:
  "(fst (sys_process_read_memory s proc vaddr buffer len actual) = NO_ERROR \<longrightarrow>
      (\<exists>h p. handles (GetCurrent s) proc = Some h \<and> dispatcher_of h = ProcessDispatcher p \<and>
             MX_RIGHT_READ \<in> rights h \<and> MX_RIGHT_WRITE \<in> rights h)) \<and>
   (buffer \<noteq> 0 \<and> len \<noteq> 0 \<and> unat len \<le> 64 * 1024 * 1024 \<and>
    \<not> (\<exists>h p. handles (GetCurrent s) proc = Some h \<and> dispatcher_of h = ProcessDispatcher p \<and>
             MX_RIGHT_READ \<in> rights h \<and> MX_RIGHT_WRITE \<in> rights h) \<longrightarrow>
      (\<exists>st. st \<in> {ERR_BAD_HANDLE, ERR_WRONG_TYPE, ERR_ACCESS_DENIED} \<and>
            GetDispatcher (GetCurrent s) proc as_process {MX_RIGHT_READ, MX_RIGHT_WRITE} = Inl st \<and>
            sys_process_read_memory s proc vaddr buffer len actual = (st, s)))"
proof (cases "GetDispatcher (GetCurrent s) proc as_process {MX_RIGHT_READ, MX_RIGHT_WRITE}")
  case (Inl st)
  then have st: "st \<in> {ERR_BAD_HANDLE, ERR_WRONG_TYPE, ERR_ACCESS_DENIED}"
    by (auto simp: GetDispatcher_def split: option.splits if_splits)
  have "sys_process_read_memory s proc vaddr buffer len actual = (st, s) \<or>
        sys_process_read_memory s proc vaddr buffer len actual = (ERR_INVALID_ARGS, s)"
    by (simp add: sys_process_read_memory_def Inl)
  moreover have "sys_process_read_memory s proc vaddr buffer len actual = (st, s)"
    if "buffer \<noteq> 0" "len \<noteq> 0" "unat len \<le> 64 * 1024 * 1024"
    using that by (simp add: sys_process_read_memory_def Inl block_limit)
  ultimately show ?thesis
    using st Inl by auto
next
  case (Inr p)
  then obtain h where "handles (GetCurrent s) proc = Some h" "dispatcher_of h = ProcessDispatcher p"
    "{MX_RIGHT_READ, MX_RIGHT_WRITE} \<subseteq> rights h"
    by (auto simp: GetDispatcher_Inr_iff as_process_Some)
  then show ?thesis by auto
qed

text \<open>
  C1 at a handle that carries \<open>MX_RIGHT_WRITE\<close> only, at a handle value that is
  not in the table and at a handle to a thread: the read is refused with the
  error of the lookup and the state is unchanged. A read through handle 10
  succeeds, and that handle is filed for a process with both rights.
\<close>

theorem C1_witness:
  "(0x2100 :: u64) \<noteq> 0 \<and> (4 :: u64) \<noteq> 0 \<and> unat (4 :: u64) \<le> 64 * 1024 * 1024 \<and>
   handles (GetCurrent ex_state) 11 =
     Some \<lparr>dispatcher_of = ProcessDispatcher 2, rights = {MX_RIGHT_WRITE}\<rparr> \<and>
   sys_process_read_memory ex_state 11 0x1000 0x2100 4 0x3000 = (ERR_ACCESS_DENIED, ex_state) \<and>
   handles (GetCurrent ex_state) 99 = None \<and>
   sys_process_read_memory ex_state 99 0x1000 0x2100 4 0x3000 = (ERR_BAD_HANDLE, ex_state) \<and>
   handles (GetCurrent ex_state) 14 =
     Some \<lparr>dispatcher_of = ThreadDispatcher 7, rights = {MX_RIGHT_READ}\<rparr> \<and>
   sys_process_read_memory ex_state 14 0x1000 0x2100 4 0x3000 = (ERR_WRONG_TYPE, ex_state) \<and>
   fst (sys_process_read_memory ex_state 10 0x1000 0x2100 4 0x3000) = NO_ERROR \<and>
   (\<exists>h p. handles (GetCurrent ex_state) 10 = Some h \<and> dispatcher_of h = ProcessDispatcher p \<and>
          MX_RIGHT_READ \<in> rights h \<and> MX_RIGHT_WRITE \<in> rights h)"
proof -
  have no11: "\<not> (\<exists>h p. handles (GetCurrent ex_state) 11 = Some h \<and>
             dispatcher_of h = ProcessDispatcher p \<and>
             MX_RIGHT_READ \<in> rights h \<and> MX_RIGHT_WRITE \<in> rights h)"
    and no99: "\<not> (\<exists>h p. handles (GetCurrent ex_state) 99 = Some h \<and>
             dispatcher_of h = ProcessDispatcher p \<and>
             MX_RIGHT_READ \<in> rights h \<and> MX_RIGHT_WRITE \<in> rights h)"
    and no14: "\<not> (\<exists>h p. handles (GetCurrent ex_state) 14 = Some h \<and>
             dispatcher_of h = ProcessDispatcher p \<and>
             MX_RIGHT_READ \<in> rights h \<and> MX_RIGHT_WRITE \<in> rights h)"
    by simp_all
  have d: "GetDispatcher (GetCurrent ex_state) 11 as_process {MX_RIGHT_READ, MX_RIGHT_WRITE}
        = Inl ERR_ACCESS_DENIED"
      "GetDispatcher (GetCurrent ex_state) 99 as_process {MX_RIGHT_READ, MX_RIGHT_WRITE}
        = Inl ERR_BAD_HANDLE"
      "GetDispatcher (GetCurrent ex_state) 14 as_process {MX_RIGHT_READ, MX_RIGHT_WRITE}
        = Inl ERR_WRONG_TYPE"
    by (simp_all add: GetDispatcher_def)
  have "sys_process_read_memory ex_state 11 0x1000 0x2100 4 0x3000 = (ERR_ACCESS_DENIED, ex_state)"
    using no11 d(1) C1_read_memory_handle_rights [where s = ex_state and proc = 11
        and vaddr = "0x1000" and buffer = "0x2100" and len = 4 and actual = "0x3000"]
    by auto
  moreover
  have "sys_process_read_memory ex_state 99 0x1000 0x2100 4 0x3000 = (ERR_BAD_HANDLE, ex_state)"
    using no99 d(2) C1_read_memory_handle_rights [where s = ex_state and proc = 99
        and vaddr = "0x1000" and buffer = "0x2100" and len = 4 and actual = "0x3000"]
    by auto
  moreover
  have "sys_process_read_memory ex_state 14 0x1000 0x2100 4 0x3000 = (ERR_WRONG_TYPE, ex_state)"
    using no14 d(3) C1_read_memory_handle_rights [where s = ex_state and proc = 14
        and vaddr = "0x1000" and buffer = "0x2100" and len = 4 and actual = "0x3000"]
    by auto
  moreover
  have "\<exists>h p. handles (GetCurrent ex_state) 10 = Some h \<and> dispatcher_of h = ProcessDispatcher p \<and>
          MX_RIGHT_READ \<in> rights h \<and> MX_RIGHT_WRITE \<in> rights h"
    using ex_read_ok C1_read_memory_handle_rights [where s = ex_state and proc = 10
        and vaddr = "0x1000" and buffer = "0x2100" and len = 4 and actual = "0x3000"]
    by blast
  ultimately show ?thesis
    using ex_read_ok by simp
qed

subsection \<open>C2\<close>




subsection \<open>C3\<close>

text \<open>
  C3. A call of \<^verbatim>\<open>sys_process_read_memory\<close> or \<^verbatim>\<open>sys_process_write_memory\<close>
  that passes the argument checks and the handle and rights check returns
  \<open>ERR_BAD_STATE\<close> when the target process has no address space, and
  \<open>ERR_NO_MEMORY\<close> when it has one but none of its regions contains \<open>vaddr\<close>, or
  the region found has no VM object. The state is unchanged in each case.
\<close>

theorem C3_torn_down_or_unmapped:
  assumes "buffer \<noteq> 0" and "len \<noteq> 0" and "unat len \<le> 64 * 1024 * 1024"
  shows
    "(GetDispatcher (GetCurrent s) proc as_process {MX_RIGHT_READ, MX_RIGHT_WRITE} = Inr p \<longrightarrow>
        (aspace (procs s p) = None \<longrightarrow>
           sys_process_read_memory s proc vaddr buffer len actual = (ERR_BAD_STATE, s)) \<and>
        (\<forall>regions. aspace (procs s p) = Some regions \<and>
           ((\<forall>r \<in> set regions. \<not> contains_vaddr r vaddr) \<or>
            (\<exists>r. FindRegion regions vaddr = Some r \<and> vmo r = None)) \<longrightarrow>
           sys_process_read_memory s proc vaddr buffer len actual = (ERR_NO_MEMORY, s))) \<and>
     (GetDispatcher (GetCurrent s) proc as_process {MX_RIGHT_WRITE} = Inr p \<longrightarrow>
        (aspace (procs s p) = None \<longrightarrow>
           sys_process_write_memory s proc vaddr buffer len actual = (ERR_BAD_STATE, s)) \<and>
        (\<forall>regions. aspace (procs s p) = Some regions \<and>
           ((\<forall>r \<in> set regions. \<not> contains_vaddr r vaddr) \<or>
            (\<exists>r. FindRegion regions vaddr = Some r \<and> vmo r = None)) \<longrightarrow>
           sys_process_write_memory s proc vaddr buffer len actual = (ERR_NO_MEMORY, s)))"
proof -
  have none: "FindRegion regions vaddr = None" if "\<forall>r \<in> set regions. \<not> contains_vaddr r vaddr"
    for regions
    using that by (simp add: FindRegion_def find_None_iff)
  show ?thesis
    using assms none
    by (auto simp: sys_process_read_memory_def sys_process_write_memory_def block_limit)
qed

text \<open>
  C3 at a target that has been torn down, at an address of a live target that
  no region contains, and at an address in a region with no VM object.
\<close>

theorem C3_witness:
  "(0x2100 :: u64) \<noteq> 0 \<and> (4 :: u64) \<noteq> 0 \<and> unat (4 :: u64) \<le> 64 * 1024 * 1024 \<and>
   GetDispatcher (GetCurrent ex_state) 13 as_process {MX_RIGHT_READ, MX_RIGHT_WRITE} = Inr 3 \<and>
   GetDispatcher (GetCurrent ex_state) 13 as_process {MX_RIGHT_WRITE} = Inr 3 \<and>
   aspace (procs ex_state 3) = None \<and>
   sys_process_read_memory ex_state 13 0x1000 0x2100 4 0x3000 = (ERR_BAD_STATE, ex_state) \<and>
   sys_process_write_memory ex_state 13 0x1000 0x2100 4 0x3000 = (ERR_BAD_STATE, ex_state) \<and>
   GetDispatcher (GetCurrent ex_state) 10 as_process {MX_RIGHT_READ, MX_RIGHT_WRITE} = Inr 2 \<and>
   GetDispatcher (GetCurrent ex_state) 10 as_process {MX_RIGHT_WRITE} = Inr 2 \<and>
   aspace (procs ex_state 2) = Some [ex_region, ex_hole] \<and>
   \<not> contains_vaddr ex_region 0x7000 \<and> \<not> contains_vaddr ex_hole 0x7000 \<and>
   sys_process_read_memory ex_state 10 0x7000 0x2100 4 0x3000 = (ERR_NO_MEMORY, ex_state) \<and>
   sys_process_write_memory ex_state 10 0x7000 0x2100 4 0x3000 = (ERR_NO_MEMORY, ex_state) \<and>
   FindRegion [ex_region, ex_hole] 0x8000 = Some ex_hole \<and> vmo ex_hole = None \<and>
   sys_process_read_memory ex_state 10 0x8000 0x2100 4 0x3000 = (ERR_NO_MEMORY, ex_state) \<and>
   sys_process_write_memory ex_state 10 0x8000 0x2100 4 0x3000 = (ERR_NO_MEMORY, ex_state)"
proof -
  have b: "(0x2100 :: u64) \<noteq> 0" and l: "(4 :: u64) \<noteq> 0" and u: "unat (4 :: u64) \<le> 64 * 1024 * 1024"
    by simp_all
  have dead: "aspace (procs ex_state 3) = None"
    by (simp add: ex_dead_def)
  have out: "\<not> contains_vaddr ex_region 0x7000" "\<not> contains_vaddr ex_hole 0x7000"
    by (simp_all add: contains_vaddr_def ex_region_def ex_hole_def)
  have hole: "vmo ex_hole = None"
    by (simp add: ex_hole_def)
  note torn = C3_torn_down_or_unmapped [OF b l u, where s = ex_state and proc = 13 and p = 3
      and vaddr = "0x1000" and actual = "0x3000"]
  note unmapped = C3_torn_down_or_unmapped [OF b l u, where s = ex_state and proc = 10 and p = 2
      and vaddr = "0x7000" and actual = "0x3000"]
  note unbacked = C3_torn_down_or_unmapped [OF b l u, where s = ex_state and proc = 10 and p = 2
      and vaddr = "0x8000" and actual = "0x3000"]
  have t: "sys_process_read_memory ex_state 13 0x1000 0x2100 4 0x3000 = (ERR_BAD_STATE, ex_state)"
      "sys_process_write_memory ex_state 13 0x1000 0x2100 4 0x3000 = (ERR_BAD_STATE, ex_state)"
    using torn dead by simp_all
  have m: "sys_process_read_memory ex_state 10 0x7000 0x2100 4 0x3000 = (ERR_NO_MEMORY, ex_state)"
      "sys_process_write_memory ex_state 10 0x7000 0x2100 4 0x3000 = (ERR_NO_MEMORY, ex_state)"
    using unmapped out by simp_all
  have k: "sys_process_read_memory ex_state 10 0x8000 0x2100 4 0x3000 = (ERR_NO_MEMORY, ex_state)"
      "sys_process_write_memory ex_state 10 0x8000 0x2100 4 0x3000 = (ERR_NO_MEMORY, ex_state)"
    using unbacked hole by simp_all
  show ?thesis
    using t m k dead out hole by simp
qed

subsection \<open>C4\<close>

text \<open>
  C4. When the target-process handle of \<^verbatim>\<open>sys_debug_transfer_handle\<close> resolves, with
  \<open>MX_RIGHT_READ\<close> and \<open>MX_RIGHT_WRITE\<close>, to the calling process itself, the call
  returns \<open>ERR_INVALID_ARGS\<close> for every source handle value, whether it is in the
  caller's table or not, and the state (the caller's handle table included) is
  unchanged: the source handle has been neither looked up nor removed.
\<close>

theorem C4_self_transfer_rejected:
  assumes "handles (GetCurrent s) proc = Some h"
    and "dispatcher_of h = ProcessDispatcher (current s)"
    and "MX_RIGHT_READ \<in> rights h" and "MX_RIGHT_WRITE \<in> rights h"
  shows "sys_debug_transfer_handle s proc src_handle = (Inl ERR_INVALID_ARGS, s)"
  using assms by (simp add: sys_debug_transfer_handle_def GetDispatcher_def)

text \<open>
  C4 with a handle to the caller itself, for a source handle that is in the
  table (14) and for one that is not (99).
\<close>

theorem C4_witness:
  "handles (GetCurrent ex_state) 12 =
     Some \<lparr>dispatcher_of = ProcessDispatcher (current ex_state),
           rights = {MX_RIGHT_READ, MX_RIGHT_WRITE}\<rparr> \<and>
   sys_debug_transfer_handle ex_state 12 14 = (Inl ERR_INVALID_ARGS, ex_state) \<and>
   sys_debug_transfer_handle ex_state 12 99 = (Inl ERR_INVALID_ARGS, ex_state)"
proof -
  have h: "handles (GetCurrent ex_state) 12 =
     Some \<lparr>dispatcher_of = ProcessDispatcher (current ex_state),
           rights = {MX_RIGHT_READ, MX_RIGHT_WRITE}\<rparr>"
    by simp
  show ?thesis
    using h C4_self_transfer_rejected [OF h, of 14] C4_self_transfer_rejected [OF h, of 99]
    by simp
qed

subsection \<open>C5\<close>

text \<open>
  C5. A call of \<^verbatim>\<open>sys_process_read_memory\<close> or \<^verbatim>\<open>sys_process_write_memory\<close>
  with a null buffer, a length of zero or a length above 64 MiB returns
  \<open>ERR_INVALID_ARGS\<close> whatever the handle, the handle table and the address spaces
  are, and leaves the state unchanged: the arguments are rejected before any handle
  lookup, address resolution or transfer.
\<close>

theorem C5_invalid_arguments_first:
  assumes "buffer = 0 \<or> len = 0 \<or> 64 * 1024 * 1024 < unat len"
  shows "sys_process_read_memory s proc vaddr buffer len actual = (ERR_INVALID_ARGS, s) \<and>
         sys_process_write_memory s proc vaddr buffer len actual = (ERR_INVALID_ARGS, s)"
  using assms
  by (auto simp: sys_process_read_memory_def sys_process_write_memory_def block_limit)

text \<open>
  C5 at a null buffer with a handle value (99) that is not in the caller's table
  (the answer is the argument error, not the error of a lookup), at a length of
  zero and at a length of 64 MiB + 1.
\<close>

theorem C5_witness:
  "((0 :: u64) = 0 \<or> (4 :: u64) = 0 \<or> 64 * 1024 * 1024 < unat (4 :: u64)) \<and>
   handles (GetCurrent ex_state) 99 = None \<and>
   sys_process_read_memory ex_state 99 0x1000 0 4 0x3000 = (ERR_INVALID_ARGS, ex_state) \<and>
   sys_process_write_memory ex_state 99 0x1000 0 4 0x3000 = (ERR_INVALID_ARGS, ex_state) \<and>
   sys_process_read_memory ex_state 10 0x1000 0x2100 0 0x3000 = (ERR_INVALID_ARGS, ex_state) \<and>
   sys_process_write_memory ex_state 10 0x1000 0x2000 0 0x3000 = (ERR_INVALID_ARGS, ex_state) \<and>
   64 * 1024 * 1024 < unat (0x4000001 :: u64) \<and>
   sys_process_read_memory ex_state 10 0x1000 0x2100 0x4000001 0x3000 = (ERR_INVALID_ARGS, ex_state) \<and>
   sys_process_write_memory ex_state 10 0x1000 0x2000 0x4000001 0x3000 = (ERR_INVALID_ARGS, ex_state)"
proof -
  have null: "(0 :: u64) = 0 \<or> (4 :: u64) = 0 \<or> 64 * 1024 * 1024 < unat (4 :: u64)"
    by simp
  have empty_r: "(0x2100 :: u64) = 0 \<or> (0 :: u64) = 0 \<or> 64 * 1024 * 1024 < unat (0 :: u64)"
    and empty_w: "(0x2000 :: u64) = 0 \<or> (0 :: u64) = 0 \<or> 64 * 1024 * 1024 < unat (0 :: u64)"
    by simp_all
  have big: "64 * 1024 * 1024 < unat (0x4000001 :: u64)"
    by simp
  then have big_r: "(0x2100 :: u64) = 0 \<or> (0x4000001 :: u64) = 0 \<or>
        64 * 1024 * 1024 < unat (0x4000001 :: u64)"
    and big_w: "(0x2000 :: u64) = 0 \<or> (0x4000001 :: u64) = 0 \<or>
        64 * 1024 * 1024 < unat (0x4000001 :: u64)"
    by simp_all
  show ?thesis
    using null big
      C5_invalid_arguments_first [OF null, of ex_state 99 "0x1000" "0x3000"]
      C5_invalid_arguments_first [OF empty_r, of ex_state 10 "0x1000" "0x3000"]
      C5_invalid_arguments_first [OF empty_w, of ex_state 10 "0x1000" "0x3000"]
      C5_invalid_arguments_first [OF big_r, of ex_state 10 "0x1000" "0x3000"]
      C5_invalid_arguments_first [OF big_w, of ex_state 10 "0x1000" "0x3000"]
    by simp
qed

subsection \<open>C6\<close>

text \<open>
  C6, as stated, fails when the caller's length cell can be read but not written
  (it lies in read-only memory): the call passes the handle and maximum-length
  checks, the state reader answers \<open>ERR_BUFFER_TOO_SMALL\<close>, the write-back of the
  required length fails, and the call returns \<open>ERR_INVALID_ARGS\<close> with the length
  cell, like the rest of the state, unchanged.
\<close>

theorem C6_counterexample:
  "GetDispatcher (GetCurrent ex_state) 14 as_thread {MX_RIGHT_READ} = Inr 7 \<and>
   copy_from_user_u32 ex_state 0x4000 = Some 0 \<and>
   fst (ReadState (threads ex_state 7) 0 (replicate (unat (0 :: u32)) 0) 0) = ERR_BUFFER_TOO_SMALL \<and>
   sys_thread_read_state 4096 ex_state 14 0 0x4200 0x4000 = (ERR_INVALID_ARGS, ex_state)"
proof -
  have "copy_to_user_u32 ex_state 0x4000 8 = None"
    using ex_writable(7) by (simp add: copy_to_user_u32_None)
  then show ?thesis
    by (simp add: sys_thread_read_state_def ex_u32 ex_ReadState alloc_check_def)
qed

text \<open>
  C6, amended. For a call of \<^verbatim>\<open>sys_thread_read_state\<close> that passes the handle
  check, the read of the length, the maximum-length check and the allocation, let
  the state reader answer \<open>status\<close> with the length \<open>required\<close>. When \<open>status\<close> is
  \<open>NO_ERROR\<close> or \<open>ERR_BUFFER_TOO_SMALL\<close> and the caller's length cell is not
  writable, the call returns \<open>ERR_INVALID_ARGS\<close> and nothing is written. When it is
  writable, \<open>required\<close> is written to it; for \<open>ERR_BUFFER_TOO_SMALL\<close> the call then
  returns \<open>ERR_BUFFER_TOO_SMALL\<close> with nothing else written; for \<open>NO_ERROR\<close> the
  first \<open>required\<close> bytes of the buffer are copied to the caller and the call
  returns \<open>NO_ERROR\<close>, or \<open>ERR_INVALID_ARGS\<close> when that copy fails. For any other
  status the call returns it and writes nothing.
\<close>

theorem C6_thread_read_state:
  assumes "GetDispatcher (GetCurrent s) handle_value as_thread {MX_RIGHT_READ} = Inr t"
    and "copy_from_user_u32 s buffer_len_ptr = Some buffer_len"
    and "buffer_len \<le> kMaxThreadStateSize"
    and "alloc_check s (unat buffer_len)"
    and "ReadState (threads s t) state_kind (replicate (unat buffer_len) 0) buffer_len
           = (status, bytes, required)"
  shows
    "(status \<in> {NO_ERROR, ERR_BUFFER_TOO_SMALL} \<and> \<not> user_writable (umem s) buffer_len_ptr 4 \<longrightarrow>
        sys_thread_read_state kMaxThreadStateSize s handle_value state_kind buffer_ptr buffer_len_ptr
          = (ERR_INVALID_ARGS, s)) \<and>
     (status = ERR_BUFFER_TOO_SMALL \<and> user_writable (umem s) buffer_len_ptr 4 \<longrightarrow>
        (\<exists>s1. copy_to_user_u32 s buffer_len_ptr required = Some s1 \<and>
              copy_from_user_u32 s1 buffer_len_ptr = Some required \<and>
              sys_thread_read_state kMaxThreadStateSize s handle_value state_kind buffer_ptr buffer_len_ptr
                = (ERR_BUFFER_TOO_SMALL, s1))) \<and>
     (status = NO_ERROR \<and> user_writable (umem s) buffer_len_ptr 4 \<longrightarrow>
        (\<exists>s1. copy_to_user_u32 s buffer_len_ptr required = Some s1 \<and>
              copy_from_user_u32 s1 buffer_len_ptr = Some required \<and>
              (case copy_to_user (umem s1) buffer_ptr (take (unat required) bytes) of
                 None \<Rightarrow>
                   sys_thread_read_state kMaxThreadStateSize s handle_value state_kind buffer_ptr
                       buffer_len_ptr = (ERR_INVALID_ARGS, s1)
               | Some m \<Rightarrow>
                   sys_thread_read_state kMaxThreadStateSize s handle_value state_kind buffer_ptr
                       buffer_len_ptr = (NO_ERROR, s1\<lparr>umem := m\<rparr>) \<and>
                   copy_from_user m buffer_ptr (length (take (unat required) bytes))
                     = Some (take (unat required) bytes)))) \<and>
     (status \<notin> {NO_ERROR, ERR_BUFFER_TOO_SMALL} \<longrightarrow>
        sys_thread_read_state kMaxThreadStateSize s handle_value state_kind buffer_ptr buffer_len_ptr
          = (status, s))"
proof -
  let ?call = "sys_thread_read_state kMaxThreadStateSize s handle_value state_kind buffer_ptr buffer_len_ptr"
  have bound: "\<not> kMaxThreadStateSize < buffer_len"
    using assms(3) by simp
  have unfold: "?call =
      (if status = NO_ERROR \<or> status = ERR_BUFFER_TOO_SMALL
       then (case copy_to_user_u32 s buffer_len_ptr required of
               None \<Rightarrow> (ERR_INVALID_ARGS, s)
             | Some s1 \<Rightarrow> read_state_copy_out s1 status buffer_ptr bytes required)
       else read_state_copy_out s status buffer_ptr bytes required)"
    using assms(1,2,4,5) bound by (simp add: sys_thread_read_state_def)
  have c1: "?call = (ERR_INVALID_ARGS, s)"
    if "status \<in> {NO_ERROR, ERR_BUFFER_TOO_SMALL}" "\<not> user_writable (umem s) buffer_len_ptr 4"
    using that unfold copy_to_user_u32_None [OF that(2), of required] by auto
  have c2: "\<exists>s1. copy_to_user_u32 s buffer_len_ptr required = Some s1 \<and>
              copy_from_user_u32 s1 buffer_len_ptr = Some required \<and>
              ?call = (ERR_BUFFER_TOO_SMALL, s1)"
    if "status = ERR_BUFFER_TOO_SMALL" and w: "user_writable (umem s) buffer_len_ptr 4"
  proof -
    from copy_to_user_u32_Some [OF w, of required] obtain s1 where
      "copy_to_user_u32 s buffer_len_ptr required = Some s1"
      "copy_from_user_u32 s1 buffer_len_ptr = Some required"
      by blast
    with that(1) unfold show ?thesis
      by (simp add: read_state_copy_out_def)
  qed
  have c3: "\<exists>s1. copy_to_user_u32 s buffer_len_ptr required = Some s1 \<and>
              copy_from_user_u32 s1 buffer_len_ptr = Some required \<and>
              (case copy_to_user (umem s1) buffer_ptr (take (unat required) bytes) of
                 None \<Rightarrow> ?call = (ERR_INVALID_ARGS, s1)
               | Some m \<Rightarrow> ?call = (NO_ERROR, s1\<lparr>umem := m\<rparr>) \<and>
                   copy_from_user m buffer_ptr (length (take (unat required) bytes))
                     = Some (take (unat required) bytes))"
    if "status = NO_ERROR" and w: "user_writable (umem s) buffer_len_ptr 4"
  proof -
    from copy_to_user_u32_Some [OF w, of required] obtain s1 where s1:
      "copy_to_user_u32 s buffer_len_ptr required = Some s1"
      "copy_from_user_u32 s1 buffer_len_ptr = Some required"
      by blast
    with that(1) unfold have call: "?call = read_state_copy_out s1 NO_ERROR buffer_ptr bytes required"
      by simp
    have "case copy_to_user (umem s1) buffer_ptr (take (unat required) bytes) of
                 None \<Rightarrow> ?call = (ERR_INVALID_ARGS, s1)
               | Some m \<Rightarrow> ?call = (NO_ERROR, s1\<lparr>umem := m\<rparr>) \<and>
                   copy_from_user m buffer_ptr (length (take (unat required) bytes))
                     = Some (take (unat required) bytes)"
    proof (cases "copy_to_user (umem s1) buffer_ptr (take (unat required) bytes)")
      case None
      then show ?thesis
        by (simp add: call read_state_copy_out_def)
    next
      case (Some m)
      from copy_to_user_read_back [OF Some] Some show ?thesis
        by (simp add: call read_state_copy_out_def)
    qed
    with s1 show ?thesis by blast
  qed
  have c4: "?call = (status, s)" if "status \<notin> {NO_ERROR, ERR_BUFFER_TOO_SMALL}"
    using that unfold by (simp add: read_state_copy_out_def)
  from c1 c2 c3 c4 show ?thesis by blast
qed

text \<open>
  C6 (amended) on a thread whose state of kind 0 has 8 bytes: a call with a
  writable length cell holding 0 returns \<open>ERR_BUFFER_TOO_SMALL\<close> and leaves 8 in
  the cell; a call with a length cell holding 8 returns \<open>NO_ERROR\<close> and copies the
  8 bytes out.
\<close>

theorem C6_witness:
  "GetDispatcher (GetCurrent ex_state) 14 as_thread {MX_RIGHT_READ} = Inr 7 \<and>
   copy_from_user_u32 ex_state 0x2100 = Some 0 \<and>
   fst (ReadState (threads ex_state 7) 0 (replicate (unat (0 :: u32)) 0) 0) = ERR_BUFFER_TOO_SMALL \<and>
   user_writable (umem ex_state) 0x2100 4 \<and>
   fst (sys_thread_read_state 4096 ex_state 14 0 0x4200 0x2100) = ERR_BUFFER_TOO_SMALL \<and>
   copy_from_user_u32 (snd (sys_thread_read_state 4096 ex_state 14 0 0x4200 0x2100)) 0x2100 = Some 8 \<and>
   copy_from_user_u32 ex_state 0x4100 = Some 8 \<and>
   fst (ReadState (threads ex_state 7) 0 (replicate (unat (8 :: u32)) 0) 8) = NO_ERROR \<and>
   user_writable (umem ex_state) 0x4100 4 \<and>
   fst (sys_thread_read_state 4096 ex_state 14 0 0x4200 0x4100) = NO_ERROR \<and>
   copy_from_user (umem (snd (sys_thread_read_state 4096 ex_state 14 0 0x4200 0x4100))) 0x4200 8
     = Some [1, 2, 3, 4, 5, 6, 7, 8]"
proof -
  let ?blob = "[1, 2, 3, 4, 5, 6, 7, 8] :: u8 list"
  have d: "GetDispatcher (GetCurrent ex_state) 14 as_thread {MX_RIGHT_READ} = Inr 7"
    by simp
  have le0: "(0 :: u32) \<le> 4096" and le8: "(8 :: u32) \<le> 4096"
    by simp_all
  have al0: "alloc_check ex_state (unat (0 :: u32))" and al8: "alloc_check ex_state (unat (8 :: u32))"
    by (simp_all add: alloc_check_def)
  have rs0: "ReadState (threads ex_state 7) 0 (replicate (unat (0 :: u32)) 0) 0 =
      (ERR_BUFFER_TOO_SMALL, [], 8)"
    using ex_ReadState(1) by simp
  have rs8: "ReadState (threads ex_state 7) 0 (replicate (unat (8 :: u32)) 0) 8 =
      (NO_ERROR, ?blob, 8)"
    using ex_ReadState(2) by simp
  have w0: "user_writable (umem ex_state) 0x2100 4" and w8: "user_writable (umem ex_state) 0x4100 4"
    using ex_writable(2,4) by simp_all
  note small = C6_thread_read_state [OF d ex_u32(3) le0 al0 rs0, of "0x4200"]
  from small w0 have "\<exists>s1. copy_to_user_u32 ex_state 0x2100 8 = Some s1 \<and>
      copy_from_user_u32 s1 0x2100 = Some 8 \<and>
      sys_thread_read_state 4096 ex_state 14 0 0x4200 0x2100 = (ERR_BUFFER_TOO_SMALL, s1)"
    by blast
  then have first: "fst (sys_thread_read_state 4096 ex_state 14 0 0x4200 0x2100) = ERR_BUFFER_TOO_SMALL"
      "copy_from_user_u32 (snd (sys_thread_read_state 4096 ex_state 14 0 0x4200 0x2100)) 0x2100 = Some 8"
    by auto
  note exact = C6_thread_read_state [OF d ex_u32(2) le8 al8 rs8, of "0x4200"]
  from exact w8 obtain s1 where s1: "copy_to_user_u32 ex_state 0x4100 8 = Some s1"
    and out: "case copy_to_user (umem s1) 0x4200 (take (unat (8 :: u32)) ?blob) of
        None \<Rightarrow> sys_thread_read_state 4096 ex_state 14 0 0x4200 0x4100 = (ERR_INVALID_ARGS, s1)
      | Some m \<Rightarrow> sys_thread_read_state 4096 ex_state 14 0 0x4200 0x4100 = (NO_ERROR, s1\<lparr>umem := m\<rparr>) \<and>
          copy_from_user m 0x4200 (length (take (unat (8 :: u32)) ?blob))
            = Some (take (unat (8 :: u32)) ?blob)"
    by blast
  from s1 obtain m0 where m0: "copy_to_user ex_umem 0x4100 (le_bytes 4 (unat (8 :: u32))) = Some m0"
    and s1_eq: "s1 = ex_state\<lparr>umem := m0\<rparr>"
    by (auto simp: copy_to_user_u32_def split: option.splits)
  have len_blob: "length ?blob = 8"
    by simp
  from copy_to_user_writable [OF m0] ex_writable(5) have "user_writable (umem s1) 0x4200 8"
    by (simp add: s1_eq)
  then have "user_writable (umem s1) 0x4200 (length ?blob)"
    by (simp only: len_blob)
  then obtain m where m: "copy_to_user (umem s1) 0x4200 ?blob = Some m"
    using copy_to_user_Some by blast
  with out have call: "sys_thread_read_state 4096 ex_state 14 0 0x4200 0x4100 = (NO_ERROR, s1\<lparr>umem := m\<rparr>)"
    by simp
  have "copy_from_user m 0x4200 (length ?blob) = Some ?blob"
    using m by (rule copy_to_user_read_back)
  then have "copy_from_user m 0x4200 8 = Some ?blob"
    by (simp only: len_blob)
  with call have second: "fst (sys_thread_read_state 4096 ex_state 14 0 0x4200 0x4100) = NO_ERROR"
      "copy_from_user (umem (snd (sys_thread_read_state 4096 ex_state 14 0 0x4200 0x4100))) 0x4200 8
        = Some ?blob"
    by simp_all
  show ?thesis
    using d ex_u32(2,3) rs0 rs8 w0 w8 first second by simp
qed

subsection \<open>C7\<close>

text \<open>
  C7. For a call of \<^verbatim>\<open>sys_ktrace_write\<close> whose handle passes
  \<^verbatim>\<open>validate_resource_handle\<close>: an event id above \<open>0x7FF\<close> gives
  \<open>ERR_INVALID_ARGS\<close>; otherwise, when \<^verbatim>\<open>ktrace_open\<close> returns no slot, the call
  returns \<open>ERR_UNAVAILABLE\<close>; otherwise the call returns \<open>NO_ERROR\<close> and the slot that
  was opened, tagged \<open>TAG_PROBE_24 event_id\<close>, holds the two words \<open>arg0\<close> and
  \<open>arg1\<close>. In the two error cases the state is unchanged.
\<close>

theorem C7_ktrace_write:
  assumes "validate_resource_handle s handle_value = NO_ERROR"
  shows
    "(0x7FF < unat event_id \<longrightarrow>
        sys_ktrace_write s handle_value event_id arg0 arg1 = (ERR_INVALID_ARGS, s)) \<and>
     (unat event_id \<le> 0x7FF \<and> ktrace_open (ktrace s) (TAG_PROBE_24 event_id) = None \<longrightarrow>
        sys_ktrace_write s handle_value event_id arg0 arg1 = (ERR_UNAVAILABLE, s)) \<and>
     (\<forall>slot ks. unat event_id \<le> 0x7FF \<and>
        ktrace_open (ktrace s) (TAG_PROBE_24 event_id) = Some (slot, ks) \<longrightarrow>
        sys_ktrace_write s handle_value event_id arg0 arg1 =
          (NO_ERROR,
           s\<lparr>ktrace := ks\<lparr>records :=
                (records ks)[slot := \<lparr>tag = TAG_PROBE_24 event_id, args = [arg0, arg1]\<rparr>]\<rparr>\<rparr>) \<and>
        slot < length (records ks))"
proof -
  have id: "(event_id > 0x7FF) = (0x7FF < unat event_id)"
    by (simp add: word_less_nat_alt)
  have "sys_ktrace_write s handle_value event_id arg0 arg1 =
          (NO_ERROR,
           s\<lparr>ktrace := ks\<lparr>records :=
                (records ks)[slot := \<lparr>tag = TAG_PROBE_24 event_id, args = [arg0, arg1]\<rparr>]\<rparr>\<rparr>) \<and>
        slot < length (records ks)"
    if "unat event_id \<le> 0x7FF" and op: "ktrace_open (ktrace s) (TAG_PROBE_24 event_id) = Some (slot, ks)"
    for slot ks
  proof -
    from ktrace_open_Some [OF op] have slot: "slot = length (records (ktrace s))"
      and ks: "ks = (ktrace s)\<lparr>records := records (ktrace s) @ [\<lparr>tag = TAG_PROBE_24 event_id, args = [0, 0]\<rparr>]\<rparr>"
      by simp_all
    show ?thesis
      using assms that(1) op
      by (simp add: sys_ktrace_write_def id slot ks slot_store_def)
  qed
  moreover have "sys_ktrace_write s handle_value event_id arg0 arg1 = (ERR_INVALID_ARGS, s)"
    if "0x7FF < unat event_id"
    using assms that by (simp add: sys_ktrace_write_def id)
  moreover have "sys_ktrace_write s handle_value event_id arg0 arg1 = (ERR_UNAVAILABLE, s)"
    if "unat event_id \<le> 0x7FF" "ktrace_open (ktrace s) (TAG_PROBE_24 event_id) = None"
    using assms that by (simp add: sys_ktrace_write_def id)
  ultimately show ?thesis by blast
qed

text \<open>
  C7 at the event ids \<open>0x800\<close> (rejected) and \<open>0x7FF\<close> (written to slot 0 of the
  empty log), and at event id \<open>0x10\<close> with the log disabled (no slot).
\<close>

theorem C7_witness:
  "validate_resource_handle ex_state 15 = NO_ERROR \<and>
   sys_ktrace_write ex_state 15 0x800 1 2 = (ERR_INVALID_ARGS, ex_state) \<and>
   ktrace_open (ktrace ex_state) (TAG_PROBE_24 0x7FF) =
     Some (0, \<lparr>enabled = True, capacity = 2, records = [\<lparr>tag = TAG_PROBE_24 0x7FF, args = [0, 0]\<rparr>]\<rparr>) \<and>
   sys_ktrace_write ex_state 15 0x7FF 1 2 =
     (NO_ERROR, ex_state\<lparr>ktrace := \<lparr>enabled = True, capacity = 2,
        records = [\<lparr>tag = TAG_PROBE_24 0x7FF, args = [1, 2]\<rparr>]\<rparr>\<rparr>) \<and>
   validate_resource_handle
     (ex_state\<lparr>ktrace := \<lparr>enabled = False, capacity = 2, records = []\<rparr>\<rparr>) 15 = NO_ERROR \<and>
   ktrace_open (ktrace (ex_state\<lparr>ktrace := \<lparr>enabled = False, capacity = 2, records = []\<rparr>\<rparr>))
     (TAG_PROBE_24 0x10) = None \<and>
   sys_ktrace_write (ex_state\<lparr>ktrace := \<lparr>enabled = False, capacity = 2, records = []\<rparr>\<rparr>) 15 0x10 1 2 =
     (ERR_UNAVAILABLE, ex_state\<lparr>ktrace := \<lparr>enabled = False, capacity = 2, records = []\<rparr>\<rparr>)"
proof -
  let ?off = "ex_state\<lparr>ktrace := \<lparr>enabled = False, capacity = 2, records = []\<rparr>\<rparr>"
  have v: "validate_resource_handle ex_state 15 = NO_ERROR"
    by (simp add: validate_resource_handle_def)
  have v': "validate_resource_handle ?off 15 = NO_ERROR"
    by (simp add: validate_resource_handle_def GetCurrent_def ex_state_def)
  have op: "ktrace_open (ktrace ex_state) (TAG_PROBE_24 0x7FF) =
     Some (0, \<lparr>enabled = True, capacity = 2, records = [\<lparr>tag = TAG_PROBE_24 0x7FF, args = [0, 0]\<rparr>]\<rparr>)"
    by (simp add: ktrace_open_def ex_state_def)
  have closed: "ktrace_open (ktrace ?off) (TAG_PROBE_24 0x10) = None"
    by (simp add: ktrace_open_def)
  have "sys_ktrace_write ?off 15 0x10 1 2 = (ERR_UNAVAILABLE, ?off)"
    using closed C7_ktrace_write [OF v', of "0x10" 1 2] by simp
  then show ?thesis
    using v v' op closed
      C7_ktrace_write [OF v, of "0x800" 1 2] C7_ktrace_write [OF v, of "0x7FF" 1 2]
    by simp
qed

subsection \<open>C8\<close>

text \<open>
  C8, as stated, fails when the actual-length pointer cannot be written: with a
  null \<open>actual\<close> the transfer of \<^verbatim>\<open>sys_process_read_memory\<close> returns \<open>NO_ERROR\<close>,
  yet nothing is written through \<open>actual\<close> and the call returns
  \<open>ERR_INVALID_ARGS\<close>.
\<close>

theorem C8_counterexample:
  "fst (ReadUser ex_state 0 0x2100 0 4) = NO_ERROR \<and>
   sys_process_read_memory ex_state 10 0x1000 0x2100 4 0 =
     (ERR_INVALID_ARGS, snd (snd (ReadUser ex_state 0 0x2100 0 4))) \<and>
   copy_from_user (umem (snd (sys_process_read_memory ex_state 10 0x1000 0x2100 4 0))) 0 8 = None"
proof -
  from ex_ReadUser obtain m where m: "copy_to_user ex_umem 0x2100 (replicate 4 0) = Some m"
    and r: "ReadUser ex_state 0 0x2100 0 4 = (NO_ERROR, 4, ex_state\<lparr>umem := m\<rparr>)"
    by blast
  from copy_to_user_writable [OF m] ex_writable(6) have nw: "\<not> user_writable m 0 8"
    by simp
  then have "copy_to_user_size (ex_state\<lparr>umem := m\<rparr>) 0 4 = None"
    by (simp add: copy_to_user_size_None)
  then have res: "sys_process_read_memory ex_state 10 0x1000 0x2100 4 0 =
      (ERR_INVALID_ARGS, ex_state\<lparr>umem := m\<rparr>)"
    by (simp add: sys_process_read_memory_def kMaxDebugReadBlock_def r)
  have "m 0 = None"
    using m by (auto simp: copy_to_user_def split: if_splits)
  then have "\<not> user_readable m 0 8"
    unfolding user_readable_iff by (intro notI) (drule spec [of _ 0], simp)
  then show ?thesis
    by (simp add: res r copy_from_user_def)
qed

text \<open>
  C8, amended. For a call of \<^verbatim>\<open>sys_process_read_memory\<close> or
  \<^verbatim>\<open>sys_process_write_memory\<close> that reaches the transfer of the VM object: when the
  transfer returns \<open>NO_ERROR\<close> and the actual-length cell is writable, the number of
  bytes transferred is written to it and the call returns \<open>NO_ERROR\<close>; when the
  transfer returns \<open>NO_ERROR\<close> and the cell is not writable, the call returns
  \<open>ERR_INVALID_ARGS\<close> and writes nothing more; when the transfer fails, the call
  returns the transfer's status and the cell is not written (the state is the
  one the transfer left).
\<close>

theorem C8_actual_length_reported:
  assumes "buffer \<noteq> 0" and "len \<noteq> 0" and "unat len \<le> 64 * 1024 * 1024"
    and "aspace (procs s p) = Some regions"
    and "FindRegion regions vaddr = Some r"
    and "vmo r = Some v"
  shows
    "(GetDispatcher (GetCurrent s) proc as_process {MX_RIGHT_READ, MX_RIGHT_WRITE} = Inr p \<longrightarrow>
        (\<forall>st n s1. ReadUser s v buffer (vaddr - base r + object_offset r) len = (st, n, s1) \<longrightarrow>
           (st = NO_ERROR \<and> user_writable (umem s1) actual 8 \<longrightarrow>
              (\<exists>m. copy_to_user (umem s1) actual (le_bytes 8 n) = Some m \<and>
                   sys_process_read_memory s proc vaddr buffer len actual = (NO_ERROR, s1\<lparr>umem := m\<rparr>) \<and>
                   copy_from_user m actual 8 = Some (le_bytes 8 n))) \<and>
           (st = NO_ERROR \<and> \<not> user_writable (umem s1) actual 8 \<longrightarrow>
              sys_process_read_memory s proc vaddr buffer len actual = (ERR_INVALID_ARGS, s1)) \<and>
           (st \<noteq> NO_ERROR \<longrightarrow>
              sys_process_read_memory s proc vaddr buffer len actual = (st, s1)))) \<and>
     (GetDispatcher (GetCurrent s) proc as_process {MX_RIGHT_WRITE} = Inr p \<longrightarrow>
        (\<forall>st n s1. WriteUser s v buffer (vaddr - base r + object_offset r) len = (st, n, s1) \<longrightarrow>
           (st = NO_ERROR \<and> user_writable (umem s1) actual 8 \<longrightarrow>
              (\<exists>m. copy_to_user (umem s1) actual (le_bytes 8 n) = Some m \<and>
                   sys_process_write_memory s proc vaddr buffer len actual = (NO_ERROR, s1\<lparr>umem := m\<rparr>) \<and>
                   copy_from_user m actual 8 = Some (le_bytes 8 n))) \<and>
           (st = NO_ERROR \<and> \<not> user_writable (umem s1) actual 8 \<longrightarrow>
              sys_process_write_memory s proc vaddr buffer len actual = (ERR_INVALID_ARGS, s1)) \<and>
           (st \<noteq> NO_ERROR \<longrightarrow>
              sys_process_write_memory s proc vaddr buffer len actual = (st, s1))))"
proof -
  have rd: "sys_process_read_memory s proc vaddr buffer len actual =
      (if st = NO_ERROR
       then (case copy_to_user_size s1 actual n of
               None \<Rightarrow> (ERR_INVALID_ARGS, s1) | Some s2 \<Rightarrow> (st, s2))
       else (st, s1))"
    if "GetDispatcher (GetCurrent s) proc as_process {MX_RIGHT_READ, MX_RIGHT_WRITE} = Inr p"
      and "ReadUser s v buffer (vaddr - base r + object_offset r) len = (st, n, s1)"
    for st n s1
    using assms that by (simp add: sys_process_read_memory_def block_limit)
  have wr: "sys_process_write_memory s proc vaddr buffer len actual =
      (if st = NO_ERROR
       then (case copy_to_user_size s1 actual n of
               None \<Rightarrow> (ERR_INVALID_ARGS, s1) | Some s2 \<Rightarrow> (st, s2))
       else (st, s1))"
    if "GetDispatcher (GetCurrent s) proc as_process {MX_RIGHT_WRITE} = Inr p"
      and "WriteUser s v buffer (vaddr - base r + object_offset r) len = (st, n, s1)"
    for st n s1
    using assms that by (simp add: sys_process_write_memory_def block_limit)
  have ok: "\<exists>m. copy_to_user (umem s1) actual (le_bytes 8 n) = Some m \<and>
      (case copy_to_user_size s1 actual n of
         None \<Rightarrow> (ERR_INVALID_ARGS, s1) | Some s2 \<Rightarrow> (NO_ERROR, s2)) = (NO_ERROR, s1\<lparr>umem := m\<rparr>) \<and>
      copy_from_user m actual 8 = Some (le_bytes 8 n)"
    if "user_writable (umem s1) actual 8" for s1 :: kstate and n
    using copy_to_user_size_Some [OF that, of n] by auto
  have bad: "(case copy_to_user_size s1 actual n of
         None \<Rightarrow> (ERR_INVALID_ARGS, s1) | Some s2 \<Rightarrow> (NO_ERROR, s2)) = (ERR_INVALID_ARGS, s1)"
    if "\<not> user_writable (umem s1) actual 8" for s1 :: kstate and n
    using copy_to_user_size_None [OF that, of n] by simp
  show ?thesis
  proof (intro conjI impI allI)
    fix st n s1
    assume d: "GetDispatcher (GetCurrent s) proc as_process {MX_RIGHT_READ, MX_RIGHT_WRITE} = Inr p"
      and t: "ReadUser s v buffer (vaddr - base r + object_offset r) len = (st, n, s1)"
    note eq = rd [OF d t]
    { assume "st = NO_ERROR \<and> user_writable (umem s1) actual 8"
      then show "\<exists>m. copy_to_user (umem s1) actual (le_bytes 8 n) = Some m \<and>
                   sys_process_read_memory s proc vaddr buffer len actual = (NO_ERROR, s1\<lparr>umem := m\<rparr>) \<and>
                   copy_from_user m actual 8 = Some (le_bytes 8 n)"
        using eq ok [of s1 n] by auto }
    { assume "st = NO_ERROR \<and> \<not> user_writable (umem s1) actual 8"
      then show "sys_process_read_memory s proc vaddr buffer len actual = (ERR_INVALID_ARGS, s1)"
        using eq bad [of s1 n] by auto }
    { assume "st \<noteq> NO_ERROR"
      then show "sys_process_read_memory s proc vaddr buffer len actual = (st, s1)"
        using eq by simp }
  next
    fix st n s1
    assume d: "GetDispatcher (GetCurrent s) proc as_process {MX_RIGHT_WRITE} = Inr p"
      and t: "WriteUser s v buffer (vaddr - base r + object_offset r) len = (st, n, s1)"
    note eq = wr [OF d t]
    { assume "st = NO_ERROR \<and> user_writable (umem s1) actual 8"
      then show "\<exists>m. copy_to_user (umem s1) actual (le_bytes 8 n) = Some m \<and>
                   sys_process_write_memory s proc vaddr buffer len actual = (NO_ERROR, s1\<lparr>umem := m\<rparr>) \<and>
                   copy_from_user m actual 8 = Some (le_bytes 8 n)"
        using eq ok [of s1 n] by auto }
    { assume "st = NO_ERROR \<and> \<not> user_writable (umem s1) actual 8"
      then show "sys_process_write_memory s proc vaddr buffer len actual = (ERR_INVALID_ARGS, s1)"
        using eq bad [of s1 n] by auto }
    { assume "st \<noteq> NO_ERROR"
      then show "sys_process_write_memory s proc vaddr buffer len actual = (st, s1)"
        using eq by simp }
  qed
qed

text \<open>
  C8 (amended) for a read of four bytes: the transfer succeeds, the cell at
  \<open>0x3000\<close> is writable, and after the call it holds 4.
\<close>

theorem C8_witness:
  "GetDispatcher (GetCurrent ex_state) 10 as_process {MX_RIGHT_READ, MX_RIGHT_WRITE} = Inr 2 \<and>
   fst (ReadUser ex_state 0 0x2100 0 4) = NO_ERROR \<and>
   fst (snd (ReadUser ex_state 0 0x2100 0 4)) = 4 \<and>
   user_writable (umem (snd (snd (ReadUser ex_state 0 0x2100 0 4)))) 0x3000 8 \<and>
   fst (sys_process_read_memory ex_state 10 0x1000 0x2100 4 0x3000) = NO_ERROR \<and>
   copy_from_user (umem (snd (sys_process_read_memory ex_state 10 0x1000 0x2100 4 0x3000))) 0x3000 8
     = Some [4, 0, 0, 0, 0, 0, 0, 0]"
proof -
  from ex_ReadUser obtain m where m: "copy_to_user ex_umem 0x2100 (replicate 4 0) = Some m"
    and r: "ReadUser ex_state 0 0x2100 0 4 = (NO_ERROR, 4, ex_state\<lparr>umem := m\<rparr>)"
    by blast
  from copy_to_user_writable [OF m] ex_writable(3) have w: "user_writable m 0x3000 8"
    by simp
  have r': "ReadUser ex_state 0 0x2100 (0x1000 - base ex_region + object_offset ex_region) 4 =
      (NO_ERROR, 4, ex_state\<lparr>umem := m\<rparr>)"
    using r by simp
  show ?thesis
    using w r C8_actual_length_reported [where s = ex_state and p = 2 and regions = "[ex_region, ex_hole]"
        and vaddr = "0x1000" and r = ex_region and v = 0 and buffer = "0x2100" and len = 4
        and proc = 10 and actual = "0x3000"] r'
    by (auto simp: le_bytes_numeral)
qed

subsection \<open>C9\<close>

text \<open>
  C9, as stated, fails on a call whose buffer cannot be read: with a null buffer
  pointer and a length of 300 the call emits nothing and returns
  \<open>ERR_INVALID_ARGS\<close>, not 256.
\<close>

theorem C9_counterexample:
  "256 < unat (300 :: u32) \<and>
   sys_debug_write ex_state 0 300 = (Inl ERR_INVALID_ARGS, ex_state)"
proof -
  have "ex_umem (unat (0 :: u64) + 0) = None"
    by simp
  then have "\<not> user_readable ex_umem 0 256"
    unfolding user_readable_iff by (intro notI) (drule spec [of _ 0], simp)
  then show ?thesis
    by (simp add: sys_debug_write_def kMaxDebugWriteSize_def copy_from_user_def ex_state_def)
qed

text \<open>
  C9, amended. For every call of \<^verbatim>\<open>sys_debug_write\<close> with a length above 256 the
  length is clamped to 256: when the first 256 bytes at the buffer pointer can be
  copied from the caller, exactly these 256 bytes are appended to the console, in
  order, and the call returns 256; when that copy fails, the call returns
  \<open>ERR_INVALID_ARGS\<close> and emits nothing.
\<close>

theorem C9_debug_write_clamp:
  assumes "256 < unat len"
  shows "(\<forall>bs. copy_from_user (umem s) ptr 256 = Some bs \<longrightarrow>
            sys_debug_write s ptr len = (Inr 256, s\<lparr>console := console s @ bs\<rparr>)) \<and>
         (copy_from_user (umem s) ptr 256 = None \<longrightarrow>
            sys_debug_write s ptr len = (Inl ERR_INVALID_ARGS, s))"
proof -
  from assms have big: "len > kMaxDebugWriteSize"
    by (simp add: kMaxDebugWriteSize_def word_less_nat_alt)
  have "sys_debug_write s ptr len = (Inr 256, s\<lparr>console := console s @ bs\<rparr>)"
    if "copy_from_user (umem s) ptr 256 = Some bs" for bs
  proof -
    from that have "length bs = 256"
      by (auto simp: copy_from_user_def split: if_splits)
    then have "dputc_loop s bs 0 256 = s\<lparr>console := console s @ bs\<rparr>"
      by (simp add: dputc_loop_console)
    with that big show ?thesis
      by (simp add: sys_debug_write_def kMaxDebugWriteSize_def)
  qed
  moreover have "sys_debug_write s ptr len = (Inl ERR_INVALID_ARGS, s)"
    if "copy_from_user (umem s) ptr 256 = None"
    using that big by (simp add: sys_debug_write_def kMaxDebugWriteSize_def)
  ultimately show ?thesis by blast
qed

text \<open>
  C9 (amended) for a write of 300 bytes \<open>0x41\<close>: 256 of them reach the console and
  the call returns 256.
\<close>

theorem C9_witness:
  "256 < unat (300 :: u32) \<and>
   copy_from_user (umem ex_state) 0x5000 256 = Some (replicate 256 0x41) \<and>
   sys_debug_write ex_state 0x5000 300 =
     (Inr 256, ex_state\<lparr>console := console ex_state @ replicate 256 0x41\<rparr>)"
proof -
  have big: "256 < unat (300 :: u32)" by simp
  show ?thesis
    using big ex_copy_text C9_debug_write_clamp [OF big, of ex_state "0x5000"]
    by simp
qed

subsection \<open>C10\<close>

text \<open>
  C10. When \<^verbatim>\<open>sys_process_write_memory\<close> has passed its checks, the write to the VM
  object has returned \<open>NO_ERROR\<close> with \<open>n\<close> bytes written, and the copy of \<open>n\<close> to
  the caller's actual-length cell fails, the call returns \<open>ERR_INVALID_ARGS\<close> in the
  state the write left: the VM object of the target holds the \<open>n\<close> bytes of the
  caller's buffer at the resolved offset.
\<close>

theorem C10_write_not_atomic:
  assumes "buffer \<noteq> 0" and "len \<noteq> 0" and "unat len \<le> 64 * 1024 * 1024"
    and "GetDispatcher (GetCurrent s) proc as_process {MX_RIGHT_WRITE} = Inr p"
    and "aspace (procs s p) = Some regions"
    and "FindRegion regions vaddr = Some r"
    and "vmo r = Some v"
    and "WriteUser s v buffer (vaddr - base r + object_offset r) len = (NO_ERROR, n, s1)"
    and "copy_to_user (umem s1) actual (le_bytes 8 n) = None"
  shows "sys_process_write_memory s proc vaddr buffer len actual = (ERR_INVALID_ARGS, s1) \<and>
         (\<exists>bs. copy_from_user (umem s) buffer n = Some bs \<and>
               vmos s1 v =
                 take (unat (vaddr - base r + object_offset r)) (vmos s v) @ bs @
                 drop (unat (vaddr - base r + object_offset r) + n) (vmos s v))"
proof -
  have "sys_process_write_memory s proc vaddr buffer len actual = (ERR_INVALID_ARGS, s1)"
    using assms by (simp add: sys_process_write_memory_def block_limit copy_to_user_size_def)
  moreover from WriteUser_effect [OF assms(8)]
  have "\<exists>bs. copy_from_user (umem s) buffer n = Some bs \<and>
               vmos s1 v =
                 take (unat (vaddr - base r + object_offset r)) (vmos s v) @ bs @
                 drop (unat (vaddr - base r + object_offset r) + n) (vmos s v)"
    by auto
  ultimately show ?thesis by simp
qed

text \<open>
  C10 for a write of four bytes \<open>0xAB\<close> with a null actual-length pointer: the call
  returns \<open>ERR_INVALID_ARGS\<close> and the first four bytes of the VM object have changed
  from 0 to \<open>0xAB\<close>.
\<close>

theorem C10_witness:
  "GetDispatcher (GetCurrent ex_state) 11 as_process {MX_RIGHT_WRITE} = Inr 2 \<and>
   fst (WriteUser ex_state 0 0x2000 0 4) = NO_ERROR \<and>
   copy_to_user (umem (snd (snd (WriteUser ex_state 0 0x2000 0 4)))) 0 (le_bytes 8 4) = None \<and>
   fst (sys_process_write_memory ex_state 11 0x1000 0x2000 4 0) = ERR_INVALID_ARGS \<and>
   take 4 (vmos ex_state 0) = [0, 0, 0, 0] \<and>
   take 4 (vmos (snd (sys_process_write_memory ex_state 11 0x1000 0x2000 4 0)) 0) =
     [0xAB, 0xAB, 0xAB, 0xAB]"
proof -
  let ?s1 = "ex_state\<lparr>vmos := (vmos ex_state)(0 := [0xAB, 0xAB, 0xAB, 0xAB] @ replicate 4092 0)\<rparr>"
  have w: "WriteUser ex_state 0 0x2000 (0x1000 - base ex_region + object_offset ex_region) 4 =
      (NO_ERROR, 4, ?s1)"
    using ex_WriteUser by simp
  have c: "copy_to_user (umem ?s1) 0 (le_bytes 8 4) = None"
    using ex_writable(6) by (simp add: copy_to_user_None_iff length_le_bytes)
  have "replicate 4 (0 :: u8) = [0, 0, 0, 0]"
    by (simp add: numeral_eq_Suc)
  then have t0: "take 4 (vmos ex_state 0) = [0, 0, 0, 0]"
    by simp
  from C10_write_not_atomic [where s = ex_state and proc = 11 and p = 2 and vaddr = "0x1000"
      and buffer = "0x2000" and len = 4 and actual = 0 and regions = "[ex_region, ex_hole]"
      and r = ex_region and v = 0 and n = 4 and ?s1.0 = ?s1, OF _ _ _ _ _ _ _ w c]
  have "sys_process_write_memory ex_state 11 0x1000 0x2000 4 0 = (ERR_INVALID_ARGS, ?s1)"
    by simp
  then show ?thesis
    using c t0 by (simp add: ex_WriteUser)
qed

end
